theory Spec2Isabelle
  imports Complex_Main "HOL-Library.Finite_Map" "HOL-Library.Word" "HOL-Library.Sublist"
begin

section \<open>CareFlow demo API: the in-memory booking service of \<open>src/api/main.py\<close>\<close>

text \<open>
  The module keeps three global collections (\<open>SLOTS\<close>, \<open>BOOKINGS\<close>, \<open>MESSAGES\<close>) and one
  configuration value (\<open>API_KEY\<close>). Each request handler is modelled as a function from the
  state before the call to the handler's outcome (an error or a response body) paired with the
  state after the call. An exception does not roll anything back in Python, so the state after
  an error is whatever the handler had written before raising; that the handlers in fact raise
  before they write is proved below, not built into the types.

  What comes from outside the module is a parameter: the ISO string of tomorrow's date
  (\<open>base_date\<close>), the value of the environment variable, the request header, and the 128-bit
  value drawn by \<open>uuid.uuid4()\<close>. Strings are lists of characters. \<open>str.lower\<close> is a method
  of Python's strings, defined by the Unicode tables and not by the module: the listing takes
  it as the parameter \<open>str_lower\<close>, and what is proved of the listing holds for every
  function in its place. The log lines written by \<open>logging\<close> are not part of the state.
\<close>

subsection \<open>Data model\<close>

datatype error = HTTPException nat string | ValueError | KeyError

record slot =
  s_start :: string
  s_end :: string
  s_provider :: string

text \<open>\<open>BookRequest\<close>; \<open>model_dump\<close> turns it into the dictionary stored in \<open>BOOKINGS\<close>, which
  has the same five fields. The field \<open>end\<close> is called \<open>end_time\<close> here.\<close>

record BookRequest =
  patient_ref :: string
  start :: string
  end_time :: string
  provider :: string
  visit_type :: string

type_synonym booking = BookRequest

definition model_dump :: "BookRequest \<Rightarrow> booking" where
  "model_dump req = req"

record RescheduleRequest =
  rs_booking_id :: string
  new_start :: string
  new_end :: string

record CancelRequest =
  cn_booking_id :: string
  reason :: "string option"

datatype json = JNull | JBool bool | JNum int | JStr string
  | JArr "json list" | JObj "(string \<times> json) list"

text \<open>\<open>SendMessageRequest\<close>; the field \<open>to\<close> is called \<open>recipient\<close> here. The values of
  \<open>variables\<close> are JSON values.\<close>

record SendMessageRequest =
  channel :: string
  recipient :: string
  subject :: "string option"
  template_name :: "string option"
  variables :: "(string \<times> json) list option"

record InsuranceVerifyRequest =
  payer :: string
  cpt_code :: string
  iv_visit_type :: "string option"

text \<open>The constructor of \<open>InsuranceVerifyRequest\<close>: \<open>visit_type: Optional[str] = "screening"\<close>.
  The outer \<open>None\<close> is a field that the request does not carry; a field carried as
  \<open>null\<close> is \<open>Some None\<close>.\<close>

definition InsuranceVerifyRequest_init ::
  "string \<Rightarrow> string \<Rightarrow> string option option \<Rightarrow> InsuranceVerifyRequest" where
  "InsuranceVerifyRequest_init p c vt =
     \<lparr>payer = p, cpt_code = c,
      iv_visit_type = (case vt of None \<Rightarrow> Some ''screening'' | Some v \<Rightarrow> v)\<rparr>"

record message =
  msg_id :: string
  msg_channel :: string
  msg_to :: string
  msg_subject :: "string option"
  msg_template :: "string option"
  msg_vars :: "(string \<times> json) list option"

record state =
  API_KEY :: "string option"
  SLOTS :: "slot list"
  BOOKINGS :: "(string, booking) fmap"
  MESSAGES :: "message list"

text \<open>Response bodies.\<close>

record slots_response =
  slots :: "slot list"

record booking_response =
  booking_id :: string
  status :: string
  booking :: booking

record cancel_response =
  cr_booking_id :: string
  cr_status :: string
  cr_reason :: string

record message_response =
  mr_status :: string
  message_id :: string

record insurance_response =
  covered :: bool
  copay_estimate :: real
  preauth_required :: bool
  steps :: "string list"

subsection \<open>Python primitives the handlers use\<close>

text \<open>Truth value of an \<open>Optional[str]\<close>: \<open>None\<close> and the empty string are false.\<close>

definition truthy :: "string option \<Rightarrow> bool" where
  "truthy x = (case x of None \<Rightarrow> False | Some s \<Rightarrow> s \<noteq> [])"

definition startswith :: "string \<Rightarrow> string \<Rightarrow> bool" where
  "startswith s p = (take (length p) s = p)"

text \<open>\<open>list.remove(x)\<close>: removes the first element equal to \<open>x\<close>, raises \<open>ValueError\<close> when
  there is none.\<close>

definition list_remove :: "'a \<Rightarrow> 'a list \<Rightarrow> 'a list option" where
  "list_remove x xs = (if x \<in> set xs then Some (remove1 x xs) else None)"

text \<open>\<open>f"{hour:02d}"\<close>: decimal, padded with zeros to two digits.\<close>

definition digit_char :: "nat \<Rightarrow> char" where
  "digit_char n = ''0123456789'' ! (n mod 10)"

function decimal :: "nat \<Rightarrow> string" where
  "decimal n = (if n < 10 then [digit_char n] else decimal (n div 10) @ [digit_char n])"
  by pat_completeness auto
termination
  by (relation "measure id") auto

declare decimal.simps [simp del]

definition fmt_02d :: "nat \<Rightarrow> string" where
  "fmt_02d n = (let d = decimal n in replicate (2 - length d) CHR ''0'' @ d)"

text \<open>\<open>str(u)\<close> for a UUID \<open>u\<close>: the 32 hexadecimal digits of its 128-bit value, most
  significant first, grouped 8-4-4-4-12 with hyphens. \<open>uuid.uuid4()\<close> draws the value at
  random and fixes only the version and variant bits, which lie in the third and fourth
  group; the handlers keep the first 8 characters.\<close>

type_synonym uuid = "128 word"

definition hex_char :: "nat \<Rightarrow> char" where
  "hex_char n = ''0123456789abcdef'' ! (n mod 16)"

text \<open>\<open>hex_digits k n\<close>: the \<open>k\<close> least significant hexadecimal digits of \<open>n\<close>, most
  significant first (\<open>'%032x' % n\<close> for \<open>k = 32\<close> and \<open>n < 2 ^ 128\<close>).\<close>

fun hex_digits :: "nat \<Rightarrow> nat \<Rightarrow> string" where
  "hex_digits k n = (if k = 0 then [] else hex_digits (k - 1) (n div 16) @ [hex_char n])"

declare hex_digits.simps [simp del]

definition hex32 :: "uuid \<Rightarrow> string" where
  "hex32 u = hex_digits 32 (unat u)"

definition uuid_str :: "uuid \<Rightarrow> string" where
  "uuid_str u =
     (let h = hex32 u in
      take 8 h @ ''-'' @ take 4 (drop 8 h) @ ''-'' @ take 4 (drop 12 h) @ ''-''
        @ take 4 (drop 16 h) @ ''-'' @ drop 20 h)"

subsection \<open>Security\<close>

definition require_key :: "string option \<Rightarrow> state \<Rightarrow> error option" where
  "require_key x_api_key st =
     (if \<not> truthy x_api_key \<or> x_api_key \<noteq> API_KEY st
      then Some (HTTPException 401 ''Unauthorized: invalid x-api-key'')
      else None)"

subsection \<open>Data stores\<close>

definition seed_hours :: "nat list" where
  "seed_hours = [9, 10, 11, 13, 14, 15]"

definition seed_slots :: "string \<Rightarrow> slot list" where
  "seed_slots base_date =
     fold (\<lambda>hour acc.
        (acc @ [\<lparr>s_start = base_date @ ''T'' @ fmt_02d hour @ '':00:00'',
                 s_end = base_date @ ''T'' @ fmt_02d hour @ '':40:00'',
                 s_provider = ''Dr. Lee''\<rparr>])
          @ [\<lparr>s_start = base_date @ ''T'' @ fmt_02d hour @ '':00:00'',
              s_end = base_date @ ''T'' @ fmt_02d hour @ '':20:00'',
              s_provider = ''NP Garcia''\<rparr>])
       seed_hours []"

text \<open>The state once the module is loaded: the slots seeded, no booking, no message.\<close>

definition initial_state :: "string \<Rightarrow> string option \<Rightarrow> state" where
  "initial_state base_date key =
     \<lparr>API_KEY = key, SLOTS = seed_slots base_date, BOOKINGS = fmempty, MESSAGES = []\<rparr>"

subsection \<open>Routes: calendar\<close>

text \<open>\<open>next((s for s in SLOTS if ...), None)\<close> is \<open>find\<close>: the first slot that satisfies the
  condition, or \<open>None\<close>. A slot is a dictionary of three keys, so \<open>not match\<close> holds exactly
  when \<open>match\<close> is \<open>None\<close>. \<open>BOOKINGS[booking_id]\<close> raises \<open>KeyError\<close> on a missing key, and
  \<open>SLOTS.remove(match)\<close> raises \<open>ValueError\<close> on a missing element; both branches are kept,
  with the state as it is at that point.\<close>

text \<open>The first argument of \<open>list_slots\<close> is \<open>str.lower\<close>.\<close>

definition list_slots ::
  "(string \<Rightarrow> string) \<Rightarrow> string option \<Rightarrow> string option \<Rightarrow> string option \<Rightarrow> state
     \<Rightarrow> (error + slots_response) \<times> state" where
  "list_slots str_lower date prov x_api_key st =
     (case require_key x_api_key st of
        Some e \<Rightarrow> (Inl e, st)
      | None \<Rightarrow>
          (let results = SLOTS st;
               results = (if truthy date
                          then filter (\<lambda>s. startswith (s_start s) (the date)) results
                          else results);
               results = (if truthy prov
                          then filter (\<lambda>s. str_lower (s_provider s) = str_lower (the prov))
                                 results
                          else results)
           in (Inr \<lparr>slots = take 20 results\<rparr>, st)))"

definition book ::
  "BookRequest \<Rightarrow> string option \<Rightarrow> uuid \<Rightarrow> state \<Rightarrow> (error + booking_response) \<times> state" where
  "book req x_api_key u st =
     (case require_key x_api_key st of
        Some e \<Rightarrow> (Inl e, st)
      | None \<Rightarrow>
         (case find (\<lambda>s. s_start s = start req \<and> s_end s = end_time req
                          \<and> s_provider s = provider req) (SLOTS st) of
            None \<Rightarrow> (Inl (HTTPException 400 ''Slot not available''), st)
          | Some match \<Rightarrow>
             (case list_remove match (SLOTS st) of
                None \<Rightarrow> (Inl ValueError, st)
              | Some slots' \<Rightarrow>
                 (let st1 = st\<lparr>SLOTS := slots'\<rparr>;
                      bid = take 8 (uuid_str u);
                      st2 = st1\<lparr>BOOKINGS := fmupd bid (model_dump req) (BOOKINGS st1)\<rparr>
                  in (case fmlookup (BOOKINGS st2) bid of
                        None \<Rightarrow> (Inl KeyError, st2)
                      | Some b \<Rightarrow>
                          (Inr \<lparr>booking_id = bid, status = ''created'', booking = b\<rparr>,
                           st2))))))"

definition reschedule ::
  "RescheduleRequest \<Rightarrow> string option \<Rightarrow> state \<Rightarrow> (error + booking_response) \<times> state" where
  "reschedule req x_api_key st =
     (case require_key x_api_key st of
        Some e \<Rightarrow> (Inl e, st)
      | None \<Rightarrow>
         (case fmlookup (BOOKINGS st) (rs_booking_id req) of
            None \<Rightarrow> (Inl (HTTPException 404 ''Booking not found''), st)
          | Some old \<Rightarrow>
             (case find (\<lambda>s. s_start s = new_start req \<and> s_end s = new_end req) (SLOTS st) of
                None \<Rightarrow> (Inl (HTTPException 400 ''New slot not available''), st)
              | Some match \<Rightarrow>
                 (let st1 = st\<lparr>SLOTS := SLOTS st @ [\<lparr>s_start = start old, s_end = end_time old,
                                                       s_provider = provider old\<rparr>]\<rparr>
                  in (case list_remove match (SLOTS st1) of
                        None \<Rightarrow> (Inl ValueError, st1)
                      | Some slots' \<Rightarrow>
                         (let st2 = st1\<lparr>SLOTS := slots'\<rparr>;
                              old' = old\<lparr>start := new_start req, end_time := new_end req\<rparr>;
                              st3 = st2\<lparr>BOOKINGS :=
                                          fmupd (rs_booking_id req) old' (BOOKINGS st2)\<rparr>
                          in (Inr \<lparr>booking_id = rs_booking_id req, status = ''rescheduled'',
                                   booking = old'\<rparr>, st3)))))))"

definition cancel ::
  "CancelRequest \<Rightarrow> string option \<Rightarrow> state \<Rightarrow> (error + cancel_response) \<times> state" where
  "cancel req x_api_key st =
     (case require_key x_api_key st of
        Some e \<Rightarrow> (Inl e, st)
      | None \<Rightarrow>
         (case fmlookup (BOOKINGS st) (cn_booking_id req) of
            None \<Rightarrow> (Inl (HTTPException 404 ''Booking not found''), st)
          | Some old \<Rightarrow>
             (let st1 = st\<lparr>BOOKINGS := fmdrop (cn_booking_id req) (BOOKINGS st)\<rparr>;
                  st2 = st1\<lparr>SLOTS := SLOTS st1 @ [\<lparr>s_start = start old, s_end = end_time old,
                                                      s_provider = provider old\<rparr>]\<rparr>
              in (Inr \<lparr>cr_booking_id = cn_booking_id req, cr_status = ''canceled'',
                       cr_reason = (if truthy (reason req) then the (reason req)
                                    else ''unspecified'')\<rparr>, st2))))"

subsection \<open>Routes: messaging\<close>

definition send_message ::
  "SendMessageRequest \<Rightarrow> string option \<Rightarrow> uuid \<Rightarrow> state
     \<Rightarrow> (error + message_response) \<times> state" where
  "send_message req x_api_key u st =
     (case require_key x_api_key st of
        Some e \<Rightarrow> (Inl e, st)
      | None \<Rightarrow>
         (let record = \<lparr>msg_id = take 8 (uuid_str u), msg_channel = channel req,
                        msg_to = recipient req, msg_subject = subject req,
                        msg_template = template_name req, msg_vars = variables req\<rparr>;
              st1 = st\<lparr>MESSAGES := MESSAGES st @ [record]\<rparr>
          in (Inr \<lparr>mr_status = ''queued'', message_id = msg_id record\<rparr>, st1)))"

subsection \<open>Routes: insurance\<close>

definition insurance_verify ::
  "InsuranceVerifyRequest \<Rightarrow> string option \<Rightarrow> state
     \<Rightarrow> (error + insurance_response) \<times> state" where
  "insurance_verify req x_api_key st =
     (case require_key x_api_key st of
        Some e \<Rightarrow> (Inl e, st)
      | None \<Rightarrow>
         (let covered' = True;
              preauth = (iv_visit_type req \<noteq> Some ''screening'');
              copay_est = (if iv_visit_type req = Some ''screening'' then 100 else 150);
              steps' = (if preauth
                        then [''Submit indication & notes'', ''Get auth reference'',
                              ''Validity 30 days'']
                        else [''No pre-auth required''])
          in (Inr \<lparr>covered = covered', copay_estimate = copay_est,
                   preauth_required = preauth, steps = steps'\<rparr>, st)))"

subsection \<open>Derived notions used in the statements below\<close>

text \<open>The slot that \<open>reschedule\<close> and \<open>cancel\<close> build from a booking record.\<close>

definition slot_of :: "booking \<Rightarrow> slot" where
  "slot_of b = \<lparr>s_start = start b, s_end = end_time b, s_provider = provider b\<rparr>"

text \<open>The start/end pair of a slot and of a booking.\<close>

definition slot_span :: "slot \<Rightarrow> string \<times> string" where
  "slot_span s = (s_start s, s_end s)"

definition booking_span :: "booking \<Rightarrow> string \<times> string" where
  "booking_span b = (start b, end_time b)"

text \<open>The number of active bookings: the number of keys of \<open>BOOKINGS\<close>.\<close>

definition booking_count :: "state \<Rightarrow> nat" where
  "booking_count st = fcard (fmdom (BOOKINGS st))"

text \<open>The states of the running service: the state after module load, for any date and any
  configured key, and every state a handler call leaves behind, whatever its outcome.\<close>

inductive reachable :: "state \<Rightarrow> bool" where
  reach_init: "reachable (initial_state base_date key)"
| reach_list_slots:
    "reachable st \<Longrightarrow> reachable (snd (list_slots str_lower date prov k st))"
| reach_book: "reachable st \<Longrightarrow> reachable (snd (book breq k u st))"
| reach_reschedule: "reachable st \<Longrightarrow> reachable (snd (reschedule rreq k st))"
| reach_cancel: "reachable st \<Longrightarrow> reachable (snd (cancel creq k st))"
| reach_send_message: "reachable st \<Longrightarrow> reachable (snd (send_message mreq k u st))"
| reach_insurance_verify: "reachable st \<Longrightarrow> reachable (snd (insurance_verify ireq k st))"

text \<open>The invariant behind the slot/booking exclusion: the start/end pairs of the pool are
  pairwise distinct, no booking has the pair of a pooled slot, and no two bookings share a
  pair.\<close>

definition pool_inv :: "state \<Rightarrow> bool" where
  "pool_inv st \<longleftrightarrow>
     distinct (map slot_span (SLOTS st)) \<and>
     (\<forall>i b. fmlookup (BOOKINGS st) i = Some b \<longrightarrow> booking_span b \<notin> slot_span ` set (SLOTS st)) \<and>
     (\<forall>i j b c. fmlookup (BOOKINGS st) i = Some b \<and> fmlookup (BOOKINGS st) j = Some c
         \<and> booking_span b = booking_span c \<longrightarrow> i = j)"

subsection \<open>What the listing is said to return\<close>

text \<open>The filter as the specification words it: a date filter that is present keeps the slots
  whose start begins with it, a provider filter that is present keeps the slots whose provider
  equals it up to letter case, an absent filter keeps everything. Two strings are equal up to
  letter case when \<open>str.lower\<close> gives the same string for both; \<open>str.lower\<close> is the first
  argument here as well.\<close>

definition keeps ::
  "(string \<Rightarrow> string) \<Rightarrow> string option \<Rightarrow> string option \<Rightarrow> slot \<Rightarrow> bool" where
  "keeps str_lower date prov s \<longleftrightarrow>
     (case date of None \<Rightarrow> True | Some d \<Rightarrow> prefix d (s_start s)) \<and>
     (case prov of None \<Rightarrow> True | Some p \<Rightarrow> str_lower (s_provider s) = str_lower p)"

definition listing_spec ::
  "(string \<Rightarrow> string) \<Rightarrow> string option \<Rightarrow> string option \<Rightarrow> slot list \<Rightarrow> slot list" where
  "listing_spec str_lower date prov pool = take 20 (filter (keeps str_lower date prov) pool)"

subsection \<open>A concrete run\<close>

text \<open>The service loaded on 3 November 2026 with the key \<open>secret\<close>, the two 09:00 slots as
  booking requests, two different version-4 UUIDs whose texts both start with \<open>1b4e28ba\<close>,
  and the state after Dr. Lee's 09:00 slot has been booked with the first of them.\<close>

definition demo_uuid :: uuid where
  "demo_uuid = 0x1b4e28ba2fa14d3b8f0a5c6d7e8f9a0b"

definition demo_uuid_other :: uuid where
  "demo_uuid_other = 0x1b4e28ba9c3d4e5fa1b2c3d4e5f6a7b8"

text \<open>For the concrete run, where every string is ASCII: a function that gives what
  \<open>str.lower\<close> gives on strings of ASCII characters (a capital letter becomes its small
  letter, every other ASCII character stays). It stands for \<open>str.lower\<close> on such strings
  only.\<close>

definition ascii_lower_char :: "char \<Rightarrow> char" where
  "ascii_lower_char c =
     (case map_of (zip ''ABCDEFGHIJKLMNOPQRSTUVWXYZ'' ''abcdefghijklmnopqrstuvwxyz'') c of
        None \<Rightarrow> c
      | Some l \<Rightarrow> l)"

definition ascii_lower :: "string \<Rightarrow> string" where
  "ascii_lower s = map ascii_lower_char s"

definition demo_key :: "string option" where
  "demo_key = Some ''secret''"

definition demo_state0 :: state where
  "demo_state0 = initial_state ''2026-11-04'' demo_key"

definition demo_req_lee :: BookRequest where
  "demo_req_lee = \<lparr>patient_ref = ''P-1'', start = ''2026-11-04T09:00:00'',
     end_time = ''2026-11-04T09:40:00'', provider = ''Dr. Lee'', visit_type = ''screening''\<rparr>"

definition demo_req_garcia :: BookRequest where
  "demo_req_garcia = \<lparr>patient_ref = ''P-2'', start = ''2026-11-04T09:00:00'',
     end_time = ''2026-11-04T09:20:00'', provider = ''NP Garcia'', visit_type = ''follow-up''\<rparr>"

definition demo_state1 :: state where
  "demo_state1 = snd (book demo_req_lee demo_key demo_uuid demo_state0)"

text \<open>A request to move that booking to 10:00, into the slot that the seed gives NP Garcia.\<close>

definition demo_resched :: RescheduleRequest where
  "demo_resched = \<lparr>rs_booking_id = ''1b4e28ba'', new_start = ''2026-11-04T10:00:00'',
     new_end = ''2026-11-04T10:20:00''\<rparr>"

section \<open>Properties\<close>

subsection \<open>The handlers, case by case\<close>

lemma find_Some_mem: "find P xs = Some m \<Longrightarrow> m \<in> set xs \<and> P m"
  by (induction xs) (auto split: if_splits)

lemma find_None_iff': "find P xs = None \<longleftrightarrow> (\<forall>x\<in>set xs. \<not> P x)"
  by (induction xs) auto

lemma list_remove_found: "find P xs = Some m \<Longrightarrow> list_remove m xs = Some (remove1 m xs)"
  by (simp add: list_remove_def find_Some_mem)

lemma list_remove_append:
  "find P xs = Some m \<Longrightarrow> list_remove m (xs @ [x]) = Some (remove1 m xs @ [x])"
  by (simp add: list_remove_def find_Some_mem remove1_append)

lemma book_unauthorized:
  "require_key k st = Some e \<Longrightarrow> book req k u st = (Inl e, st)"
  by (simp add: book_def)

lemma book_unavailable:
  "require_key k st = None \<Longrightarrow>
   find (\<lambda>s. s_start s = start req \<and> s_end s = end_time req \<and> s_provider s = provider req)
     (SLOTS st) = None \<Longrightarrow>
   book req k u st = (Inl (HTTPException 400 ''Slot not available''), st)"
  by (simp add: book_def)

lemma book_created:
  "require_key k st = None \<Longrightarrow>
   find (\<lambda>s. s_start s = start req \<and> s_end s = end_time req \<and> s_provider s = provider req)
     (SLOTS st) = Some m \<Longrightarrow>
   book req k u st =
     (Inr \<lparr>booking_id = take 8 (uuid_str u), status = ''created'', booking = req\<rparr>,
      st\<lparr>SLOTS := remove1 m (SLOTS st),
         BOOKINGS := fmupd (take 8 (uuid_str u)) req (BOOKINGS st)\<rparr>)"
  by (simp add: book_def list_remove_found Let_def model_dump_def)

lemma reschedule_unauthorized:
  "require_key k st = Some e \<Longrightarrow> reschedule req k st = (Inl e, st)"
  by (simp add: reschedule_def)

lemma reschedule_not_found:
  "require_key k st = None \<Longrightarrow> fmlookup (BOOKINGS st) (rs_booking_id req) = None \<Longrightarrow>
   reschedule req k st = (Inl (HTTPException 404 ''Booking not found''), st)"
  by (simp add: reschedule_def)

lemma reschedule_unavailable:
  "require_key k st = None \<Longrightarrow> fmlookup (BOOKINGS st) (rs_booking_id req) = Some old \<Longrightarrow>
   find (\<lambda>s. s_start s = new_start req \<and> s_end s = new_end req) (SLOTS st) = None \<Longrightarrow>
   reschedule req k st = (Inl (HTTPException 400 ''New slot not available''), st)"
  by (simp add: reschedule_def)

lemma reschedule_done:
  "require_key k st = None \<Longrightarrow> fmlookup (BOOKINGS st) (rs_booking_id req) = Some old \<Longrightarrow>
   find (\<lambda>s. s_start s = new_start req \<and> s_end s = new_end req) (SLOTS st) = Some m \<Longrightarrow>
   reschedule req k st =
     (Inr \<lparr>booking_id = rs_booking_id req, status = ''rescheduled'',
           booking = old\<lparr>start := new_start req, end_time := new_end req\<rparr>\<rparr>,
      st\<lparr>SLOTS := remove1 m (SLOTS st) @ [slot_of old],
         BOOKINGS := fmupd (rs_booking_id req)
                       (old\<lparr>start := new_start req, end_time := new_end req\<rparr>) (BOOKINGS st)\<rparr>)"
  by (simp add: reschedule_def list_remove_append Let_def slot_of_def)

lemma cancel_unauthorized:
  "require_key k st = Some e \<Longrightarrow> cancel req k st = (Inl e, st)"
  by (simp add: cancel_def)

lemma cancel_not_found:
  "require_key k st = None \<Longrightarrow> fmlookup (BOOKINGS st) (cn_booking_id req) = None \<Longrightarrow>
   cancel req k st = (Inl (HTTPException 404 ''Booking not found''), st)"
  by (simp add: cancel_def)

lemma cancel_done:
  "require_key k st = None \<Longrightarrow> fmlookup (BOOKINGS st) (cn_booking_id req) = Some old \<Longrightarrow>
   cancel req k st =
     (Inr \<lparr>cr_booking_id = cn_booking_id req, cr_status = ''canceled'',
           cr_reason = (if truthy (reason req) then the (reason req) else ''unspecified'')\<rparr>,
      st\<lparr>BOOKINGS := fmdrop (cn_booking_id req) (BOOKINGS st),
         SLOTS := SLOTS st @ [slot_of old]\<rparr>)"
  by (simp add: cancel_def Let_def slot_of_def)

subsection \<open>The seed and the pool invariant\<close>

lemma fmt_02d_seed:
  "fmt_02d 9 = ''09''" "fmt_02d 10 = ''10''" "fmt_02d 11 = ''11''"
  "fmt_02d 13 = ''13''" "fmt_02d 14 = ''14''" "fmt_02d 15 = ''15''"
  by (simp_all add: fmt_02d_def decimal.simps digit_char_def)

lemma seed_slots_eq:
  "seed_slots d =
    [\<lparr>s_start = d @ ''T09:00:00'', s_end = d @ ''T09:40:00'', s_provider = ''Dr. Lee''\<rparr>,
     \<lparr>s_start = d @ ''T09:00:00'', s_end = d @ ''T09:20:00'', s_provider = ''NP Garcia''\<rparr>,
     \<lparr>s_start = d @ ''T10:00:00'', s_end = d @ ''T10:40:00'', s_provider = ''Dr. Lee''\<rparr>,
     \<lparr>s_start = d @ ''T10:00:00'', s_end = d @ ''T10:20:00'', s_provider = ''NP Garcia''\<rparr>,
     \<lparr>s_start = d @ ''T11:00:00'', s_end = d @ ''T11:40:00'', s_provider = ''Dr. Lee''\<rparr>,
     \<lparr>s_start = d @ ''T11:00:00'', s_end = d @ ''T11:20:00'', s_provider = ''NP Garcia''\<rparr>,
     \<lparr>s_start = d @ ''T13:00:00'', s_end = d @ ''T13:40:00'', s_provider = ''Dr. Lee''\<rparr>,
     \<lparr>s_start = d @ ''T13:00:00'', s_end = d @ ''T13:20:00'', s_provider = ''NP Garcia''\<rparr>,
     \<lparr>s_start = d @ ''T14:00:00'', s_end = d @ ''T14:40:00'', s_provider = ''Dr. Lee''\<rparr>,
     \<lparr>s_start = d @ ''T14:00:00'', s_end = d @ ''T14:20:00'', s_provider = ''NP Garcia''\<rparr>,
     \<lparr>s_start = d @ ''T15:00:00'', s_end = d @ ''T15:40:00'', s_provider = ''Dr. Lee''\<rparr>,
     \<lparr>s_start = d @ ''T15:00:00'', s_end = d @ ''T15:20:00'', s_provider = ''NP Garcia''\<rparr>]"
  by (simp add: seed_slots_def seed_hours_def fmt_02d_seed)

lemma seed_spans_distinct: "distinct (map slot_span (seed_slots d))"
  by (simp add: seed_slots_eq slot_span_def)

lemma pool_inv_initial: "pool_inv (initial_state d key)"
  by (simp add: pool_inv_def initial_state_def seed_spans_distinct)

lemma mem_remove1D: "x \<in> set (remove1 m xs) \<Longrightarrow> x \<in> set xs"
  by (meson notin_set_remove1)

lemma distinct_map_remove1:
  "distinct (map f xs) \<Longrightarrow> m \<in> set xs \<Longrightarrow> f m \<notin> f ` set (remove1 m xs)"
proof (induction xs)
  case Nil
  then show ?case by simp
next
  case (Cons a xs)
  show ?case
  proof (cases "m = a")
    case True
    then show ?thesis using Cons.prems by simp
  next
    case False
    then have "m \<in> set xs" using Cons.prems by simp
    moreover have "distinct (map f xs)" "f a \<notin> f ` set xs" using Cons.prems by simp_all
    ultimately have "f m \<notin> f ` set (remove1 m xs)" "f m \<noteq> f a"
      using Cons.IH by (simp, metis imageI)
    then show ?thesis using False by simp
  qed
qed

lemma distinct_map_remove1': "distinct (map f xs) \<Longrightarrow> distinct (map f (remove1 m xs))"
  by (induction xs) (auto dest: mem_remove1D)

lemma pool_invI:
  assumes "distinct (map slot_span (SLOTS st))"
    and "\<And>i b. fmlookup (BOOKINGS st) i = Some b \<Longrightarrow> booking_span b \<notin> slot_span ` set (SLOTS st)"
    and "\<And>i j b c. fmlookup (BOOKINGS st) i = Some b \<Longrightarrow> fmlookup (BOOKINGS st) j = Some c
          \<Longrightarrow> booking_span b = booking_span c \<Longrightarrow> i = j"
  shows "pool_inv st"
  unfolding pool_inv_def using assms by blast

lemma pool_inv_distinct: "pool_inv st \<Longrightarrow> distinct (map slot_span (SLOTS st))"
  by (simp add: pool_inv_def)

lemma pool_inv_disjoint:
  "pool_inv st \<Longrightarrow> fmlookup (BOOKINGS st) i = Some b \<Longrightarrow> s \<in> set (SLOTS st)
     \<Longrightarrow> booking_span b \<noteq> slot_span s"
  unfolding pool_inv_def by blast

lemma pool_inv_unique:
  "pool_inv st \<Longrightarrow> fmlookup (BOOKINGS st) i = Some b \<Longrightarrow> fmlookup (BOOKINGS st) j = Some c
     \<Longrightarrow> booking_span b = booking_span c \<Longrightarrow> i = j"
  unfolding pool_inv_def by blast

lemma pool_inv_book: assumes inv: "pool_inv st" shows "pool_inv (snd (book req k u st))"
proof (cases "require_key k st")
  case (Some e) then show ?thesis using assms by (simp add: book_unauthorized)
next
  case None
  let ?P = "\<lambda>s. s_start s = start req \<and> s_end s = end_time req \<and> s_provider s = provider req"
  show ?thesis
  proof (cases "find ?P (SLOTS st)")
    case N: None
    then show ?thesis using assms None by (simp add: book_unavailable)
  next
    case (Some m)
    let ?st' = "st\<lparr>SLOTS := remove1 m (SLOTS st),
         BOOKINGS := fmupd (take 8 (uuid_str u)) req (BOOKINGS st)\<rparr>"
    have m: "m \<in> set (SLOTS st)" "slot_span m = booking_span req"
      using find_Some_mem [OF Some] by (simp_all add: slot_span_def booking_span_def)
    have d: "distinct (map slot_span (SLOTS st))" by (rule pool_inv_distinct [OF inv])
    have n: "\<And>s. s \<in> set (remove1 m (SLOTS st)) \<Longrightarrow> slot_span s \<noteq> booking_span req"
      using distinct_map_remove1 [OF d m(1)] m(2) by (metis imageI)
    have "pool_inv ?st'"
    proof (rule pool_invI)
      show "distinct (map slot_span (SLOTS ?st'))"
        using d by (simp add: distinct_map_remove1')
    next
      fix i b
      assume "fmlookup (BOOKINGS ?st') i = Some b"
      then have c: "b = req \<or> fmlookup (BOOKINGS st) i = Some b"
        by (simp split: if_splits)
      have "\<And>s. s \<in> set (remove1 m (SLOTS st)) \<Longrightarrow> booking_span b \<noteq> slot_span s"
        using c n pool_inv_disjoint [OF inv] mem_remove1D by metis
      then show "booking_span b \<notin> slot_span ` set (SLOTS ?st')"
        by auto
    next
      fix i j b c
      assume a: "fmlookup (BOOKINGS ?st') i = Some b" "fmlookup (BOOKINGS ?st') j = Some c"
        "booking_span b = booking_span c"
      have old: "\<And>i b. fmlookup (BOOKINGS st) i = Some b \<Longrightarrow> booking_span b \<noteq> booking_span req"
        using pool_inv_disjoint [OF inv _ m(1)] m(2) by metis
      show "i = j"
      proof (cases "i = take 8 (uuid_str u)")
        case True
        then have "b = req" using a(1) by simp
        then show ?thesis using a(2,3) old True by (cases "j = take 8 (uuid_str u)") auto
      next
        case False
        then have ib: "fmlookup (BOOKINGS st) i = Some b" using a(1) by simp
        show ?thesis
        proof (cases "j = take 8 (uuid_str u)")
          case True
          then have "c = req" using a(2) by simp
          then show ?thesis using old [OF ib] a(3) by simp
        next
          case F: False
          then have "fmlookup (BOOKINGS st) j = Some c" using a(2) by simp
          then show ?thesis using pool_inv_unique [OF inv ib _ a(3)] by simp
        qed
      qed
    qed
    then show ?thesis using None Some by (simp add: book_created)
  qed
qed

lemma slot_span_slot_of: "slot_span (slot_of b) = booking_span b"
  by (simp add: slot_span_def slot_of_def booking_span_def)

lemma pool_inv_cancel: assumes inv: "pool_inv st" shows "pool_inv (snd (cancel req k st))"
proof (cases "require_key k st")
  case (Some e) then show ?thesis using assms by (simp add: cancel_unauthorized)
next
  case None
  show ?thesis
  proof (cases "fmlookup (BOOKINGS st) (cn_booking_id req)")
    case N: None
    then show ?thesis using assms None by (simp add: cancel_not_found)
  next
    case (Some old)
    let ?st' = "st\<lparr>BOOKINGS := fmdrop (cn_booking_id req) (BOOKINGS st),
         SLOTS := SLOTS st @ [slot_of old]\<rparr>"
    have d: "distinct (map slot_span (SLOTS st))" by (rule pool_inv_distinct [OF inv])
    have o: "\<And>s. s \<in> set (SLOTS st) \<Longrightarrow> booking_span old \<noteq> slot_span s"
      using pool_inv_disjoint [OF inv Some] by simp
    have "pool_inv ?st'"
    proof (rule pool_invI)
      show "distinct (map slot_span (SLOTS ?st'))"
        using d o by (auto simp: slot_span_slot_of)
    next
      fix i b
      assume "fmlookup (BOOKINGS ?st') i = Some b"
      then have c: "i \<noteq> cn_booking_id req" "fmlookup (BOOKINGS st) i = Some b"
        by (simp_all split: if_splits)
      have "booking_span b \<noteq> booking_span old"
        using pool_inv_unique [OF inv c(2) Some] c(1) by blast
      moreover have "\<And>s. s \<in> set (SLOTS st) \<Longrightarrow> booking_span b \<noteq> slot_span s"
        using pool_inv_disjoint [OF inv c(2)] by simp
      ultimately show "booking_span b \<notin> slot_span ` set (SLOTS ?st')"
        by (auto simp: slot_span_slot_of)
    next
      fix i j b c
      assume a: "fmlookup (BOOKINGS ?st') i = Some b" "fmlookup (BOOKINGS ?st') j = Some c"
        "booking_span b = booking_span c"
      then have "fmlookup (BOOKINGS st) i = Some b" "fmlookup (BOOKINGS st) j = Some c"
        by (simp_all split: if_splits)
      then show "i = j" using pool_inv_unique [OF inv _ _ a(3)] by simp
    qed
    then show ?thesis using None Some by (simp add: cancel_done)
  qed
qed

lemma pool_inv_reschedule:
  assumes inv: "pool_inv st" shows "pool_inv (snd (reschedule req k st))"
proof (cases "require_key k st")
  case (Some e) then show ?thesis using assms by (simp add: reschedule_unauthorized)
next
  case None
  show ?thesis
  proof (cases "fmlookup (BOOKINGS st) (rs_booking_id req)")
    case N: None
    then show ?thesis using assms None by (simp add: reschedule_not_found)
  next
    case (Some old)
    let ?P = "\<lambda>s. s_start s = new_start req \<and> s_end s = new_end req"
    show ?thesis
    proof (cases "find ?P (SLOTS st)")
      case N: None
      then show ?thesis using assms None Some by (simp add: reschedule_unavailable)
    next
      case M: (Some m)
      let ?old' = "old\<lparr>start := new_start req, end_time := new_end req\<rparr>"
      let ?st' = "st\<lparr>SLOTS := remove1 m (SLOTS st) @ [slot_of old],
         BOOKINGS := fmupd (rs_booking_id req) ?old' (BOOKINGS st)\<rparr>"
      have m: "m \<in> set (SLOTS st)" "slot_span m = booking_span ?old'"
        using find_Some_mem [OF M] by (simp_all add: slot_span_def booking_span_def)
      have d: "distinct (map slot_span (SLOTS st))" by (rule pool_inv_distinct [OF inv])
      have o: "\<And>s. s \<in> set (SLOTS st) \<Longrightarrow> booking_span old \<noteq> slot_span s"
        using pool_inv_disjoint [OF inv Some] by simp
      have n: "\<And>s. s \<in> set (remove1 m (SLOTS st)) \<Longrightarrow> slot_span s \<noteq> booking_span ?old'"
        using distinct_map_remove1 [OF d m(1)] m(2) by (metis imageI)
      have on: "booking_span old \<noteq> booking_span ?old'"
        using o [OF m(1)] m(2) by simp
      have others: "\<And>i b. fmlookup (BOOKINGS st) i = Some b \<Longrightarrow> booking_span b \<noteq> booking_span ?old'"
        using pool_inv_disjoint [OF inv _ m(1)] m(2) by metis
      have "pool_inv ?st'"
      proof (rule pool_invI)
        have "distinct (map slot_span (remove1 m (SLOTS st)))"
          using d by (rule distinct_map_remove1')
        moreover have "\<And>s. s \<in> set (remove1 m (SLOTS st)) \<Longrightarrow> booking_span old \<noteq> slot_span s"
          using o mem_remove1D by metis
        ultimately show "distinct (map slot_span (SLOTS ?st'))"
          by (auto simp: slot_span_slot_of)
      next
        fix i b
        assume l: "fmlookup (BOOKINGS ?st') i = Some b"
        show "booking_span b \<notin> slot_span ` set (SLOTS ?st')"
        proof (cases "i = rs_booking_id req")
          case True
          then have bo: "b = ?old'" using l by simp
          have "\<And>s. s \<in> set (remove1 m (SLOTS st)) \<Longrightarrow> booking_span b \<noteq> slot_span s"
            using n bo by metis
          moreover have "booking_span b \<noteq> booking_span old" using on bo by simp
          ultimately show ?thesis by (auto simp: slot_span_slot_of)
        next
          case False
          then have ib: "fmlookup (BOOKINGS st) i = Some b" using l by simp
          have "booking_span b \<noteq> booking_span old"
            using pool_inv_unique [OF inv ib Some] False by blast
          moreover have "\<And>s. s \<in> set (remove1 m (SLOTS st)) \<Longrightarrow> booking_span b \<noteq> slot_span s"
            using pool_inv_disjoint [OF inv ib] mem_remove1D by metis
          ultimately show ?thesis by (auto simp: slot_span_slot_of)
        qed
      next
        fix i j b c
        assume a: "fmlookup (BOOKINGS ?st') i = Some b" "fmlookup (BOOKINGS ?st') j = Some c"
          "booking_span b = booking_span c"
        show "i = j"
        proof (cases "i = rs_booking_id req")
          case True
          then have "b = ?old'" using a(1) by simp
          then show ?thesis using a(2,3) others True by (cases "j = rs_booking_id req") auto
        next
          case False
          then have ib: "fmlookup (BOOKINGS st) i = Some b" using a(1) by simp
          show ?thesis
          proof (cases "j = rs_booking_id req")
            case True
            then have "c = ?old'" using a(2) by simp
            then show ?thesis using others [OF ib] a(3) by simp
          next
            case F: False
            then have "fmlookup (BOOKINGS st) j = Some c" using a(2) by simp
            then show ?thesis using pool_inv_unique [OF inv ib _ a(3)] by simp
          qed
        qed
      qed
      then show ?thesis using None Some M by (simp add: reschedule_done)
    qed
  qed
qed

lemma snd_list_slots: "snd (list_slots str_lower date prov k st) = st"
  by (simp add: list_slots_def Let_def split: option.splits)

lemma snd_insurance_verify: "snd (insurance_verify req k st) = st"
  by (simp add: insurance_verify_def Let_def split: option.splits)

lemma send_message_pool:
  "SLOTS (snd (send_message req k u st)) = SLOTS st"
  "BOOKINGS (snd (send_message req k u st)) = BOOKINGS st"
  by (simp_all add: send_message_def Let_def split: option.splits)

lemma pool_inv_send_message: "pool_inv st \<Longrightarrow> pool_inv (snd (send_message req k u st))"
  by (simp add: pool_inv_def send_message_pool)

lemma reachable_pool_inv: "reachable st \<Longrightarrow> pool_inv st"
proof (induction rule: reachable.induct)
  case (reach_init base_date key)
  show ?case by (rule pool_inv_initial)
next
  case (reach_list_slots st str_lower date prov k)
  then show ?case by (simp add: snd_list_slots)
next
  case (reach_book st breq k u)
  then show ?case by (simp add: pool_inv_book)
next
  case (reach_reschedule st rreq k)
  then show ?case by (simp add: pool_inv_reschedule)
next
  case (reach_cancel st creq k)
  then show ?case by (simp add: pool_inv_cancel)
next
  case (reach_send_message st mreq k u)
  then show ?case by (simp add: pool_inv_send_message)
next
  case (reach_insurance_verify st ireq k)
  then show ?case by (simp add: snd_insurance_verify)
qed

subsection \<open>The concrete run, evaluated\<close>

lemma demo_uuid_id: "take 8 (uuid_str demo_uuid) = ''1b4e28ba''"
  by (simp add: demo_uuid_def uuid_str_def hex32_def hex_char_def Let_def hex_digits.simps)

lemma demo_uuid_other_id: "take 8 (uuid_str demo_uuid_other) = ''1b4e28ba''"
  by (simp add: demo_uuid_other_def uuid_str_def hex32_def hex_char_def Let_def hex_digits.simps)

lemma demo_uuids_differ: "demo_uuid \<noteq> demo_uuid_other"
  by (simp add: demo_uuid_def demo_uuid_other_def)

lemma length_hex_digits: "length (hex_digits k n) = k"
  by (induction k n rule: hex_digits.induct) (simp add: hex_digits.simps)

lemma length_booking_id: "length (take 8 (uuid_str u)) = 8"
  by (simp add: uuid_str_def hex32_def Let_def length_hex_digits)

lemma demo_key_ok: "require_key demo_key demo_state0 = None"
  by (simp add: require_key_def demo_key_def demo_state0_def initial_state_def truthy_def)

lemma demo_state0_eq:
  "demo_state0 = \<lparr>API_KEY = Some ''secret'', SLOTS = seed_slots ''2026-11-04'',
     BOOKINGS = fmempty, MESSAGES = []\<rparr>"
  by (simp add: demo_state0_def initial_state_def demo_key_def)

lemma demo_book_lee:
  "book demo_req_lee demo_key demo_uuid demo_state0 =
     (Inr \<lparr>booking_id = ''1b4e28ba'', status = ''created'', booking = demo_req_lee\<rparr>,
      \<lparr>API_KEY = Some ''secret'', SLOTS = tl (seed_slots ''2026-11-04''),
       BOOKINGS = fmupd ''1b4e28ba'' demo_req_lee fmempty, MESSAGES = []\<rparr>)"
proof -
  have "find (\<lambda>s. s_start s = start demo_req_lee \<and> s_end s = end_time demo_req_lee
                 \<and> s_provider s = provider demo_req_lee) (SLOTS demo_state0)
        = Some (hd (seed_slots ''2026-11-04''))"
    by (simp add: demo_state0_eq seed_slots_eq demo_req_lee_def)
  from book_created [OF demo_key_ok this, of demo_uuid]
  show ?thesis
    by (simp add: demo_uuid_id demo_state0_eq seed_slots_eq)
qed

lemma demo_state1_eq:
  "demo_state1 = \<lparr>API_KEY = Some ''secret'', SLOTS = tl (seed_slots ''2026-11-04''),
       BOOKINGS = fmupd ''1b4e28ba'' demo_req_lee fmempty, MESSAGES = []\<rparr>"
  by (simp add: demo_state1_def demo_book_lee)

lemma demo_state1_reachable: "reachable demo_state1"
  unfolding demo_state1_def demo_state0_def by (rule reach_book [OF reach_init])

subsection \<open>More on the handlers\<close>

lemma require_key_same:
  "k \<noteq> [] \<Longrightarrow> API_KEY st = Some k \<Longrightarrow> require_key (Some k) st = None"
  by (simp add: require_key_def truthy_def)

lemma list_slots_unfiltered:
  "require_key k st = None \<Longrightarrow>
     list_slots str_lower None None k st = (Inr \<lparr>slots = take 20 (SLOTS st)\<rparr>, st)"
  by (simp add: list_slots_def truthy_def)

lemma book_first_seed:
  assumes "k \<noteq> []"
  shows "book \<lparr>patient_ref = p, start = d @ ''T09:00:00'', end_time = d @ ''T09:40:00'',
               provider = ''Dr. Lee'', visit_type = v\<rparr> (Some k) u (initial_state d (Some k)) =
     (Inr \<lparr>booking_id = take 8 (uuid_str u), status = ''created'',
           booking = \<lparr>patient_ref = p, start = d @ ''T09:00:00'', end_time = d @ ''T09:40:00'',
               provider = ''Dr. Lee'', visit_type = v\<rparr>\<rparr>,
      \<lparr>API_KEY = Some k, SLOTS = tl (seed_slots d),
       BOOKINGS = fmupd (take 8 (uuid_str u))
          \<lparr>patient_ref = p, start = d @ ''T09:00:00'', end_time = d @ ''T09:40:00'',
               provider = ''Dr. Lee'', visit_type = v\<rparr> fmempty, MESSAGES = []\<rparr>)"
    (is "book ?req _ _ ?st0 = _")
proof -
  have k: "require_key (Some k) ?st0 = None"
    using assms by (simp add: require_key_same initial_state_def)
  have "find (\<lambda>s. s_start s = start ?req \<and> s_end s = end_time ?req
                 \<and> s_provider s = provider ?req) (SLOTS ?st0)
        = Some (hd (seed_slots d))"
    by (simp add: initial_state_def seed_slots_eq)
  from book_created [OF k this, of u]
  show ?thesis
    by (simp add: initial_state_def seed_slots_eq)
qed

lemma find_Some_split:
  "find P xs = Some m \<Longrightarrow>
     \<exists>ys zs. xs = ys @ m # zs \<and> (\<forall>y\<in>set ys. \<not> P y) \<and> P m \<and> remove1 m xs = ys @ zs"
proof (induction xs)
  case Nil
  then show ?case by simp
next
  case (Cons a xs)
  show ?case
  proof (cases "P a")
    case True
    then have "m = a" using Cons.prems by simp
    then have "a # xs = [] @ m # xs \<and> (\<forall>y\<in>set []. \<not> P y) \<and> P m \<and> remove1 m (a # xs) = [] @ xs"
      using True by simp
    then show ?thesis by blast
  next
    case False
    then have "find P xs = Some m" using Cons.prems by simp
    then obtain ys zs where h: "xs = ys @ m # zs" "\<forall>y\<in>set ys. \<not> P y" "P m" "remove1 m xs = ys @ zs"
      using Cons.IH by blast
    have "m \<noteq> a" using False h(3) by blast
    then have "a # xs = (a # ys) @ m # zs \<and> (\<forall>y\<in>set (a # ys). \<not> P y) \<and> P m
        \<and> remove1 m (a # xs) = (a # ys) @ zs"
      using h False by simp
    then show ?thesis by blast
  qed
qed

lemma demo_key_ok1: "require_key demo_key demo_state1 = None"
  by (simp add: require_key_def demo_key_def demo_state1_eq truthy_def)

lemma reschedule_success_cases:
  assumes "reschedule req k st = (Inr resp, st')"
  obtains old m where "require_key k st = None"
    "fmlookup (BOOKINGS st) (rs_booking_id req) = Some old"
    "find (\<lambda>s. s_start s = new_start req \<and> s_end s = new_end req) (SLOTS st) = Some m"
proof (cases "require_key k st")
  case (Some e)
  then show ?thesis using assms by (simp add: reschedule_unauthorized)
next
  case None
  show ?thesis
  proof (cases "fmlookup (BOOKINGS st) (rs_booking_id req)")
    case N: None
    then show ?thesis using assms None by (simp add: reschedule_not_found)
  next
    case (Some old)
    show ?thesis
    proof (cases "find (\<lambda>s. s_start s = new_start req \<and> s_end s = new_end req) (SLOTS st)")
      case N: None
      then show ?thesis using assms None Some by (simp add: reschedule_unavailable)
    next
      case M: (Some m)
      show ?thesis by (rule that [OF None Some M])
    qed
  qed
qed

lemma reschedule_failure_state:
  assumes "fst (reschedule req k st) = Inl e"
  shows "snd (reschedule req k st) = st"
proof (cases "require_key k st")
  case (Some e)
  then show ?thesis by (simp add: reschedule_unauthorized)
next
  case None
  show ?thesis
  proof (cases "fmlookup (BOOKINGS st) (rs_booking_id req)")
    case N: None
    then show ?thesis using None by (simp add: reschedule_not_found)
  next
    case (Some old)
    show ?thesis
    proof (cases "find (\<lambda>s. s_start s = new_start req \<and> s_end s = new_end req) (SLOTS st)")
      case N: None
      then show ?thesis using None Some by (simp add: reschedule_unavailable)
    next
      case M: (Some m)
      show ?thesis using assms by (simp add: reschedule_done [OF None Some M])
    qed
  qed
qed

subsection \<open>Listing\<close>

lemma startswith_prefix: "startswith s p \<longleftrightarrow> prefix p s"
proof
  assume "startswith s p"
  then have "s = p @ drop (length p) s"
    by (metis append_take_drop_id startswith_def)
  then show "prefix p s" by (metis prefixI)
next
  assume "prefix p s"
  then show "startswith s p" by (auto simp: startswith_def prefix_def)
qed

lemma list_slots_truthy:
  assumes "require_key k st = None"
  shows "list_slots str_lower date prov k st =
     (Inr \<lparr>slots = take 20
        (filter (\<lambda>s. str_lower (s_provider s) = str_lower (the prov) \<or> \<not> truthy prov)
           (filter (\<lambda>s. startswith (s_start s) (the date) \<or> \<not> truthy date) (SLOTS st)))\<rparr>, st)"
  using assms by (simp add: list_slots_def Let_def)

subsection \<open>Successful calls and counting\<close>

lemma book_success_cases:
  assumes "book req k u st = (Inr resp, st')"
  obtains m where "require_key k st = None"
    "find (\<lambda>s. s_start s = start req \<and> s_end s = end_time req \<and> s_provider s = provider req)
       (SLOTS st) = Some m"
proof (cases "require_key k st")
  case (Some e)
  then show ?thesis using assms by (simp add: book_unauthorized)
next
  case None
  show ?thesis
  proof (cases "find (\<lambda>s. s_start s = start req \<and> s_end s = end_time req
                          \<and> s_provider s = provider req) (SLOTS st)")
    case N: None
    then show ?thesis using assms None by (simp add: book_unavailable)
  next
    case (Some m)
    show ?thesis by (rule that [OF None Some])
  qed
qed

lemma cancel_success_cases:
  assumes "cancel req k st = (Inr resp, st')"
  obtains old where "require_key k st = None"
    "fmlookup (BOOKINGS st) (cn_booking_id req) = Some old"
proof (cases "require_key k st")
  case (Some e)
  then show ?thesis using assms by (simp add: cancel_unauthorized)
next
  case None
  show ?thesis
  proof (cases "fmlookup (BOOKINGS st) (cn_booking_id req)")
    case N: None
    then show ?thesis using assms None by (simp add: cancel_not_found)
  next
    case (Some old)
    show ?thesis by (rule that [OF None Some])
  qed
qed

lemma find_split_first:
  assumes "xs = ys @ m # zs" "\<forall>y\<in>set ys. \<not> P y" "P m"
  shows "find P xs = Some m \<and> remove1 m xs = ys @ zs"
proof -
  have "find P (ys @ m # zs) = Some m"
    using assms(2,3) by (induction ys) auto
  moreover have "m \<notin> set ys" using assms(2,3) by blast
  then have "remove1 m (ys @ m # zs) = ys @ zs"
    by (simp add: remove1_append)
  ultimately show ?thesis using assms(1) by simp
qed

lemma booking_count_insert:
  "i |\<notin>| fmdom (BOOKINGS st) \<Longrightarrow>
     booking_count (st\<lparr>SLOTS := s, BOOKINGS := fmupd i b (BOOKINGS st)\<rparr>)
       = booking_count st + 1"
  by (simp add: booking_count_def fcard_finsert_disjoint)

lemma booking_count_replace:
  "i |\<in>| fmdom (BOOKINGS st) \<Longrightarrow>
     booking_count (st\<lparr>SLOTS := s, BOOKINGS := fmupd i b (BOOKINGS st)\<rparr>)
       = booking_count st"
  by (simp add: booking_count_def finsert_absorb)

lemma booking_count_drop:
  "fmlookup (BOOKINGS st) i = Some b \<Longrightarrow>
     booking_count (st\<lparr>BOOKINGS := fmdrop i (BOOKINGS st), SLOTS := s\<rparr>) + 1
       = booking_count st"
  using fcard_Suc_fminus1 [of i "fmdom (BOOKINGS st)"]
  by (simp add: booking_count_def fmdomI)

lemma length_remove1_found:
  assumes "find P xs = Some m"
  shows "length (remove1 m xs) + 1 = length xs"
proof -
  have "m \<in> set xs" using find_Some_mem [OF assms] by simp
  moreover from this have "0 < length xs" by (rule length_pos_if_in_set)
  ultimately show ?thesis by (simp add: length_remove1)
qed

lemma second_book_unavailable:
  fixes req :: BookRequest
  assumes inv: "pool_inv st"
    and f: "find (\<lambda>s. s_start s = start req \<and> s_end s = end_time req
                     \<and> s_provider s = provider req) (SLOTS st) = Some m"
  shows "find (\<lambda>s. s_start s = start req \<and> s_end s = end_time req
                     \<and> s_provider s = provider req) (remove1 m (SLOTS st)) = None"
proof -
  have m: "m \<in> set (SLOTS st)" "slot_span m = booking_span req"
    using find_Some_mem [OF f] by (simp_all add: slot_span_def booking_span_def)
  have "\<And>s. s \<in> set (remove1 m (SLOTS st)) \<Longrightarrow> slot_span s \<noteq> booking_span req"
    using distinct_map_remove1 [OF pool_inv_distinct [OF inv] m(1)] m(2) by (metis imageI)
  then show ?thesis
    by (auto simp: find_None_iff' slot_span_def booking_span_def)
qed

section \<open>The claims\<close>

text \<open>
  C1. In every state that the service can reach from the seeded initial state, no slot of the
  pool has the start, end and provider of an active booking. (The reachable states here are
  those left by any sequence of handler calls, successful or not; the proof rests on
  \<open>pool_inv\<close>: start/end pairs are never duplicated between pool and bookings.)
\<close>

theorem C1_no_booked_slot_in_pool:
  assumes "reachable st" and "fmlookup (BOOKINGS st) i = Some b"
  shows "\<lparr>s_start = start b, s_end = end_time b, s_provider = provider b\<rparr> \<notin> set (SLOTS st)"
proof
  assume "\<lparr>s_start = start b, s_end = end_time b, s_provider = provider b\<rparr> \<in> set (SLOTS st)"
  then have "booking_span b \<noteq> slot_span \<lparr>s_start = start b, s_end = end_time b, s_provider = provider b\<rparr>"
    by (rule pool_inv_disjoint [OF reachable_pool_inv [OF assms(1)] assms(2)])
  then show False
    by (simp add: booking_span_def slot_span_def)
qed

theorem C1_no_booked_slot_in_pool_witness:
  "reachable demo_state1 \<and> fmlookup (BOOKINGS demo_state1) ''1b4e28ba'' = Some demo_req_lee
   \<and> \<lparr>s_start = start demo_req_lee, s_end = end_time demo_req_lee,
       s_provider = provider demo_req_lee\<rparr> \<notin> set (SLOTS demo_state1)"
proof -
  have l: "fmlookup (BOOKINGS demo_state1) ''1b4e28ba'' = Some demo_req_lee"
    by (simp add: demo_state1_eq)
  show ?thesis
    using C1_no_booked_slot_in_pool [OF demo_state1_reachable l] demo_state1_reachable l
    by simp
qed

text \<open>
  C2. Whenever a reschedule succeeds, the booking identifier was known with some record
  \<open>old\<close>, and the pool splits as \<open>ys @ m # zs\<close> where \<open>m\<close> is the first slot whose start and end
  are the new start and end (nothing is asked of its provider). Afterwards the pool is
  \<open>ys @ zs\<close> followed by one slot with the old start, old end and the booking's provider; the
  record stored under the same identifier is \<open>old\<close> with start and end overwritten, its
  provider and other fields as before; the response carries the identifier, the status
  "rescheduled" and the updated record. Nothing else in the state changes.
\<close>

theorem C2_reschedule_success:
  assumes "reschedule req k st = (Inr resp, st')"
  shows "\<exists>old ys m zs.
      fmlookup (BOOKINGS st) (rs_booking_id req) = Some old
    \<and> SLOTS st = ys @ m # zs
    \<and> list_all (\<lambda>s. \<not> (s_start s = new_start req \<and> s_end s = new_end req)) ys
    \<and> s_start m = new_start req \<and> s_end m = new_end req
    \<and> SLOTS st' = ys @ zs @ [\<lparr>s_start = start old, s_end = end_time old,
                               s_provider = provider old\<rparr>]
    \<and> BOOKINGS st' = fmupd (rs_booking_id req)
          (old\<lparr>start := new_start req, end_time := new_end req\<rparr>) (BOOKINGS st)
    \<and> provider (old\<lparr>start := new_start req, end_time := new_end req\<rparr>) = provider old
    \<and> resp = \<lparr>booking_id = rs_booking_id req, status = ''rescheduled'',
               booking = old\<lparr>start := new_start req, end_time := new_end req\<rparr>\<rparr>
    \<and> MESSAGES st' = MESSAGES st \<and> API_KEY st' = API_KEY st"
proof -
  let ?P = "\<lambda>s. s_start s = new_start req \<and> s_end s = new_end req"
  from assms obtain old m where k: "require_key k st = None"
    and o: "fmlookup (BOOKINGS st) (rs_booking_id req) = Some old"
    and f: "find ?P (SLOTS st) = Some m"
    by (rule reschedule_success_cases)
  from find_Some_split [OF f] obtain ys zs where
    s: "SLOTS st = ys @ m # zs" "\<forall>y\<in>set ys. \<not> ?P y" "?P m" "remove1 m (SLOTS st) = ys @ zs"
    by blast
  have r: "resp = \<lparr>booking_id = rs_booking_id req, status = ''rescheduled'',
               booking = old\<lparr>start := new_start req, end_time := new_end req\<rparr>\<rparr>"
    and t: "st' = st\<lparr>SLOTS := remove1 m (SLOTS st) @ [slot_of old],
         BOOKINGS := fmupd (rs_booking_id req)
                       (old\<lparr>start := new_start req, end_time := new_end req\<rparr>) (BOOKINGS st)\<rparr>"
    using assms unfolding reschedule_done [OF k o f] by simp_all
  have "fmlookup (BOOKINGS st) (rs_booking_id req) = Some old
    \<and> SLOTS st = ys @ m # zs
    \<and> list_all (\<lambda>s. \<not> (s_start s = new_start req \<and> s_end s = new_end req)) ys
    \<and> s_start m = new_start req \<and> s_end m = new_end req
    \<and> SLOTS st' = ys @ zs @ [\<lparr>s_start = start old, s_end = end_time old,
                               s_provider = provider old\<rparr>]
    \<and> BOOKINGS st' = fmupd (rs_booking_id req)
          (old\<lparr>start := new_start req, end_time := new_end req\<rparr>) (BOOKINGS st)
    \<and> provider (old\<lparr>start := new_start req, end_time := new_end req\<rparr>) = provider old
    \<and> resp = \<lparr>booking_id = rs_booking_id req, status = ''rescheduled'',
               booking = old\<lparr>start := new_start req, end_time := new_end req\<rparr>\<rparr>
    \<and> MESSAGES st' = MESSAGES st \<and> API_KEY st' = API_KEY st"
    using o s r by (simp add: t slot_of_def list_all_iff)
  then show ?thesis by blast
qed

theorem C2_reschedule_success_witness:
  "reschedule demo_resched demo_key demo_state1 =
     (Inr \<lparr>booking_id = ''1b4e28ba'', status = ''rescheduled'',
           booking = demo_req_lee\<lparr>start := ''2026-11-04T10:00:00'',
                                  end_time := ''2026-11-04T10:20:00''\<rparr>\<rparr>,
      snd (reschedule demo_resched demo_key demo_state1))
   \<and> (\<exists>old ys m zs.
      fmlookup (BOOKINGS demo_state1) (rs_booking_id demo_resched) = Some old
    \<and> SLOTS demo_state1 = ys @ m # zs
    \<and> list_all (\<lambda>s. \<not> (s_start s = new_start demo_resched
                          \<and> s_end s = new_end demo_resched)) ys
    \<and> s_start m = new_start demo_resched \<and> s_end m = new_end demo_resched
    \<and> SLOTS (snd (reschedule demo_resched demo_key demo_state1))
        = ys @ zs @ [\<lparr>s_start = start old, s_end = end_time old, s_provider = provider old\<rparr>]
    \<and> BOOKINGS (snd (reschedule demo_resched demo_key demo_state1))
        = fmupd (rs_booking_id demo_resched)
            (old\<lparr>start := new_start demo_resched, end_time := new_end demo_resched\<rparr>)
            (BOOKINGS demo_state1))"
proof -
  have o: "fmlookup (BOOKINGS demo_state1) (rs_booking_id demo_resched) = Some demo_req_lee"
    by (simp add: demo_state1_eq demo_resched_def)
  have f: "find (\<lambda>s. s_start s = new_start demo_resched \<and> s_end s = new_end demo_resched)
             (SLOTS demo_state1)
           = Some \<lparr>s_start = ''2026-11-04T10:00:00'', s_end = ''2026-11-04T10:20:00'',
                   s_provider = ''NP Garcia''\<rparr>"
    by (simp add: demo_state1_eq demo_resched_def seed_slots_eq)
  have e: "reschedule demo_resched demo_key demo_state1 =
     (Inr \<lparr>booking_id = ''1b4e28ba'', status = ''rescheduled'',
           booking = demo_req_lee\<lparr>start := ''2026-11-04T10:00:00'',
                                  end_time := ''2026-11-04T10:20:00''\<rparr>\<rparr>,
      snd (reschedule demo_resched demo_key demo_state1))"
    unfolding reschedule_done [OF demo_key_ok1 o f] by (simp add: demo_resched_def)
  from C2_reschedule_success [OF e] e show ?thesis by blast
qed

text \<open>
  C3. With a valid key: when no slot of the pool has the request's start, end and provider,
  booking fails with 400 "Slot not available" and changes nothing; when the pool is
  \<open>ys @ m # zs\<close> with \<open>m\<close> the first such slot, the pool becomes \<open>ys @ zs\<close>, the request's
  fields are stored as a record under the identifier generated for the call (the first 8
  characters of the UUID drawn, whether or not a booking already has it), and the answer
  carries that identifier, the status "created" and the stored record. In a reachable state,
  after a successful booking a second booking of the same start, end and provider fails with
  400, whatever UUID is drawn for it.
\<close>

theorem C3_book:
  fixes req req2 :: BookRequest
  shows
  "(require_key k st = None
     \<and> list_all (\<lambda>s. \<not> (s_start s = start req \<and> s_end s = end_time req
                          \<and> s_provider s = provider req)) (SLOTS st)
      \<longrightarrow> book req k u st = (Inl (HTTPException 400 ''Slot not available''), st))
   \<and> (\<forall>ys m zs. require_key k st = None \<and> SLOTS st = ys @ m # zs
        \<and> list_all (\<lambda>s. \<not> (s_start s = start req \<and> s_end s = end_time req
                             \<and> s_provider s = provider req)) ys
        \<and> s_start m = start req \<and> s_end m = end_time req \<and> s_provider m = provider req
      \<longrightarrow> book req k u st =
            (Inr \<lparr>booking_id = take 8 (uuid_str u), status = ''created'', booking = req\<rparr>,
             st\<lparr>SLOTS := ys @ zs,
                BOOKINGS := fmupd (take 8 (uuid_str u)) req (BOOKINGS st)\<rparr>))
   \<and> (\<forall>resp st'. reachable st \<and> book req k u st = (Inr resp, st')
        \<and> start req2 = start req \<and> end_time req2 = end_time req \<and> provider req2 = provider req
      \<longrightarrow> book req2 k u2 st' = (Inl (HTTPException 400 ''Slot not available''), st'))"
proof (intro conjI allI impI)
  let ?P = "\<lambda>s. s_start s = start req \<and> s_end s = end_time req \<and> s_provider s = provider req"
  assume a: "require_key k st = None \<and> list_all (\<lambda>s. \<not> ?P s) (SLOTS st)"
  then have "find ?P (SLOTS st) = None"
    by (simp add: find_None_iff' list_all_iff)
  then show "book req k u st = (Inl (HTTPException 400 ''Slot not available''), st)"
    using a by (simp add: book_unavailable)
next
  let ?P = "\<lambda>s. s_start s = start req \<and> s_end s = end_time req \<and> s_provider s = provider req"
  fix ys m zs
  assume a: "require_key k st = None \<and> SLOTS st = ys @ m # zs
        \<and> list_all (\<lambda>s. \<not> ?P s) ys
        \<and> s_start m = start req \<and> s_end m = end_time req \<and> s_provider m = provider req"
  then have "SLOTS st = ys @ m # zs" "\<forall>y\<in>set ys. \<not> ?P y" "?P m"
    by (simp_all add: list_all_iff)
  from find_split_first [of "SLOTS st" ys m zs ?P, OF this]
  have f: "find ?P (SLOTS st) = Some m" and r: "remove1 m (SLOTS st) = ys @ zs"
    by simp_all
  show "book req k u st =
            (Inr \<lparr>booking_id = take 8 (uuid_str u), status = ''created'', booking = req\<rparr>,
             st\<lparr>SLOTS := ys @ zs,
                BOOKINGS := fmupd (take 8 (uuid_str u)) req (BOOKINGS st)\<rparr>)"
  proof -
    have k: "require_key k st = None" using a by simp
    show ?thesis unfolding book_created [OF k f] r by simp
  qed
next
  let ?P = "\<lambda>s. s_start s = start req \<and> s_end s = end_time req \<and> s_provider s = provider req"
  fix resp st'
  assume a: "reachable st \<and> book req k u st = (Inr resp, st')
        \<and> start req2 = start req \<and> end_time req2 = end_time req \<and> provider req2 = provider req"
  then have b: "book req k u st = (Inr resp, st')" by simp
  from b obtain m where k: "require_key k st = None" and f: "find ?P (SLOTS st) = Some m"
    by (rule book_success_cases)
  have st': "st' = st\<lparr>SLOTS := remove1 m (SLOTS st),
         BOOKINGS := fmupd (take 8 (uuid_str u)) req (BOOKINGS st)\<rparr>"
    using b unfolding book_created [OF k f] by simp
  have k': "require_key k st' = None"
    using k by (simp add: st' require_key_def)
  have "find ?P (remove1 m (SLOTS st)) = None"
    using a by (intro second_book_unavailable [OF reachable_pool_inv f]) simp
  then have "find (\<lambda>s. s_start s = start req2 \<and> s_end s = end_time req2
                        \<and> s_provider s = provider req2) (SLOTS st') = None"
    using a by (simp add: st')
  then show "book req2 k u2 st' = (Inl (HTTPException 400 ''Slot not available''), st')"
    by (rule book_unavailable [OF k'])
qed

theorem C3_book_witness:
  "book (demo_req_lee\<lparr>start := ''2026-11-04T12:00:00''\<rparr>) demo_key demo_uuid demo_state0
     = (Inl (HTTPException 400 ''Slot not available''), demo_state0)
   \<and> book demo_req_lee demo_key demo_uuid demo_state0
     = (Inr \<lparr>booking_id = ''1b4e28ba'', status = ''created'', booking = demo_req_lee\<rparr>,
        demo_state0\<lparr>SLOTS := tl (SLOTS demo_state0),
           BOOKINGS := fmupd ''1b4e28ba'' demo_req_lee (BOOKINGS demo_state0)\<rparr>)
   \<and> book (demo_req_lee\<lparr>patient_ref := ''P-3''\<rparr>) demo_key demo_uuid_other demo_state1
     = (Inl (HTTPException 400 ''Slot not available''), demo_state1)"
proof -
  let ?late = "demo_req_lee\<lparr>start := ''2026-11-04T12:00:00''\<rparr>"
  let ?again = "demo_req_lee\<lparr>patient_ref := ''P-3''\<rparr>"
  have a: "require_key demo_key demo_state0 = None
     \<and> list_all (\<lambda>s. \<not> (s_start s = start ?late \<and> s_end s = end_time ?late
                          \<and> s_provider s = provider ?late)) (SLOTS demo_state0)"
    by (simp add: demo_key_ok) (simp add: demo_state0_eq seed_slots_eq demo_req_lee_def)
  have b: "require_key demo_key demo_state0 = None
     \<and> SLOTS demo_state0 = [] @ hd (SLOTS demo_state0) # tl (SLOTS demo_state0)
     \<and> list_all (\<lambda>s. \<not> (s_start s = start demo_req_lee \<and> s_end s = end_time demo_req_lee
                          \<and> s_provider s = provider demo_req_lee)) []
     \<and> s_start (hd (SLOTS demo_state0)) = start demo_req_lee
     \<and> s_end (hd (SLOTS demo_state0)) = end_time demo_req_lee
     \<and> s_provider (hd (SLOTS demo_state0)) = provider demo_req_lee"
    by (simp add: demo_key_ok) (simp add: demo_state0_eq seed_slots_eq demo_req_lee_def)
  have c: "reachable demo_state0
     \<and> book demo_req_lee demo_key demo_uuid demo_state0
        = (Inr \<lparr>booking_id = ''1b4e28ba'', status = ''created'', booking = demo_req_lee\<rparr>,
           demo_state1)
     \<and> start ?again = start demo_req_lee \<and> end_time ?again = end_time demo_req_lee
     \<and> provider ?again = provider demo_req_lee"
  proof -
    have "reachable demo_state0" unfolding demo_state0_def by (rule reach_init)
    moreover have "book demo_req_lee demo_key demo_uuid demo_state0
        = (Inr \<lparr>booking_id = ''1b4e28ba'', status = ''created'', booking = demo_req_lee\<rparr>,
           demo_state1)"
      by (simp add: demo_book_lee demo_state1_eq)
    ultimately show ?thesis by simp
  qed
  have p1: "book ?late demo_key demo_uuid demo_state0
     = (Inl (HTTPException 400 ''Slot not available''), demo_state0)"
    by (rule C3_book [of demo_key demo_state0 ?late demo_uuid demo_req_lee demo_uuid,
          THEN conjunct1, rule_format, OF a])
  have p2: "book demo_req_lee demo_key demo_uuid demo_state0
     = (Inr \<lparr>booking_id = ''1b4e28ba'', status = ''created'', booking = demo_req_lee\<rparr>,
        demo_state0\<lparr>SLOTS := tl (SLOTS demo_state0),
           BOOKINGS := fmupd ''1b4e28ba'' demo_req_lee (BOOKINGS demo_state0)\<rparr>)"
    using C3_book [of demo_key demo_state0 demo_req_lee demo_uuid demo_req_lee demo_uuid,
          THEN conjunct2, THEN conjunct1, rule_format, OF b]
    by (simp add: demo_uuid_id)
  have p3: "book ?again demo_key demo_uuid_other demo_state1
     = (Inl (HTTPException 400 ''Slot not available''), demo_state1)"
    by (rule C3_book [of demo_key demo_state0 demo_req_lee demo_uuid ?again demo_uuid_other,
          THEN conjunct2, THEN conjunct2, rule_format, OF c])
  show ?thesis
    by (intro conjI) (rule p1, rule p2, rule p3)
qed

text \<open>
  As worded, with the record stored under a fresh identifier, the statement fails when the
  UUID drawn starts with the 8 characters of an identifier in use: after Dr. Lee's slot was
  booked under \<open>1b4e28ba\<close>, booking NP Garcia's slot with a different UUID of the same first
  8 characters succeeds under \<open>1b4e28ba\<close> again, and the earlier record is gone.
\<close>

theorem C3_identifier_reuse_counterexample:
  "demo_uuid \<noteq> demo_uuid_other
   \<and> fmlookup (BOOKINGS demo_state1) ''1b4e28ba'' = Some demo_req_lee
   \<and> fst (book demo_req_garcia demo_key demo_uuid_other demo_state1)
      = Inr \<lparr>booking_id = ''1b4e28ba'', status = ''created'', booking = demo_req_garcia\<rparr>
   \<and> BOOKINGS (snd (book demo_req_garcia demo_key demo_uuid_other demo_state1))
      = fmupd ''1b4e28ba'' demo_req_garcia fmempty"
proof -
  have f: "find (\<lambda>s. s_start s = start demo_req_garcia \<and> s_end s = end_time demo_req_garcia
                 \<and> s_provider s = provider demo_req_garcia) (SLOTS demo_state1)
        = Some \<lparr>s_start = ''2026-11-04T09:00:00'', s_end = ''2026-11-04T09:20:00'',
                s_provider = ''NP Garcia''\<rparr>"
    by (simp add: demo_state1_eq seed_slots_eq demo_req_garcia_def)
  show ?thesis
    unfolding book_created [OF demo_key_ok1 f]
    by (simp add: demo_uuids_differ demo_uuid_other_id demo_state1_eq)
qed

text \<open>
  C4. With a valid key: cancelling an unknown booking identifier fails with 404
  "Booking not found" and changes nothing; cancelling a known one removes the booking from
  the collection, appends a slot with its start, end and provider to the pool, and answers
  with the identifier, the status "canceled" and the reason, which is the given reason when
  one was given and is not empty, and "unspecified" when none was given or the given reason
  is the empty string; a second cancel of the same identifier then fails with 404.
\<close>

theorem C4_cancel:
  "(require_key k st = None \<and> fmlookup (BOOKINGS st) (cn_booking_id req) = None
      \<longrightarrow> cancel req k st = (Inl (HTTPException 404 ''Booking not found''), st))
   \<and> (\<forall>old. require_key k st = None \<and> fmlookup (BOOKINGS st) (cn_booking_id req) = Some old
      \<longrightarrow> cancel req k st =
            (Inr \<lparr>cr_booking_id = cn_booking_id req, cr_status = ''canceled'',
                  cr_reason = (case reason req of
                                 None \<Rightarrow> ''unspecified''
                               | Some r \<Rightarrow> if r = [] then ''unspecified'' else r)\<rparr>,
             st\<lparr>BOOKINGS := fmdrop (cn_booking_id req) (BOOKINGS st),
                SLOTS := SLOTS st @ [\<lparr>s_start = start old, s_end = end_time old,
                                       s_provider = provider old\<rparr>]\<rparr>)
          \<and> fmlookup (BOOKINGS (snd (cancel req k st))) (cn_booking_id req) = None
          \<and> cancel \<lparr>cn_booking_id = cn_booking_id req, reason = r2\<rparr> k (snd (cancel req k st))
              = (Inl (HTTPException 404 ''Booking not found''), snd (cancel req k st)))"
proof (intro conjI allI impI)
  assume "require_key k st = None \<and> fmlookup (BOOKINGS st) (cn_booking_id req) = None"
  then show "cancel req k st = (Inl (HTTPException 404 ''Booking not found''), st)"
    by (simp add: cancel_not_found)
next
  fix old
  assume a: "require_key k st = None \<and> fmlookup (BOOKINGS st) (cn_booking_id req) = Some old"
  let ?st' = "st\<lparr>BOOKINGS := fmdrop (cn_booking_id req) (BOOKINGS st),
                SLOTS := SLOTS st @ [slot_of old]\<rparr>"
  have c: "cancel req k st =
       (Inr \<lparr>cr_booking_id = cn_booking_id req, cr_status = ''canceled'',
             cr_reason = (if truthy (reason req) then the (reason req) else ''unspecified'')\<rparr>,
        ?st')"
    using a by (simp add: cancel_done)
  show "cancel req k st =
            (Inr \<lparr>cr_booking_id = cn_booking_id req, cr_status = ''canceled'',
                  cr_reason = (case reason req of
                                 None \<Rightarrow> ''unspecified''
                               | Some r \<Rightarrow> if r = [] then ''unspecified'' else r)\<rparr>,
             st\<lparr>BOOKINGS := fmdrop (cn_booking_id req) (BOOKINGS st),
                SLOTS := SLOTS st @ [\<lparr>s_start = start old, s_end = end_time old,
                                       s_provider = provider old\<rparr>]\<rparr>)"
    unfolding c by (simp add: truthy_def slot_of_def split: option.splits)
  show l: "fmlookup (BOOKINGS (snd (cancel req k st))) (cn_booking_id req) = None"
    unfolding c by simp
  have k': "require_key k (snd (cancel req k st)) = None"
    using a unfolding c by (simp add: require_key_def)
  show "cancel \<lparr>cn_booking_id = cn_booking_id req, reason = r2\<rparr> k (snd (cancel req k st))
              = (Inl (HTTPException 404 ''Booking not found''), snd (cancel req k st))"
    by (rule cancel_not_found [OF k']) (simp add: l)
qed

theorem C4_cancel_witness:
  "cancel \<lparr>cn_booking_id = ''1b4e28ba'', reason = Some ''patient request''\<rparr>
       demo_key demo_state1
     = (Inr \<lparr>cr_booking_id = ''1b4e28ba'', cr_status = ''canceled'',
             cr_reason = ''patient request''\<rparr>,
        demo_state1\<lparr>BOOKINGS := fmdrop ''1b4e28ba'' (BOOKINGS demo_state1),
           SLOTS := SLOTS demo_state1 @ [\<lparr>s_start = ''2026-11-04T09:00:00'',
              s_end = ''2026-11-04T09:40:00'', s_provider = ''Dr. Lee''\<rparr>]\<rparr>)
   \<and> cancel \<lparr>cn_booking_id = ''1b4e28ba'', reason = None\<rparr> demo_key
        (snd (cancel \<lparr>cn_booking_id = ''1b4e28ba'', reason = Some ''patient request''\<rparr>
                demo_key demo_state1))
     = (Inl (HTTPException 404 ''Booking not found''),
        snd (cancel \<lparr>cn_booking_id = ''1b4e28ba'', reason = Some ''patient request''\<rparr>
                demo_key demo_state1))
   \<and> cancel \<lparr>cn_booking_id = ''ffffffff'', reason = None\<rparr> demo_key demo_state1
     = (Inl (HTTPException 404 ''Booking not found''), demo_state1)"
proof -
  have a: "require_key demo_key demo_state1 = None
     \<and> fmlookup (BOOKINGS demo_state1)
         (cn_booking_id \<lparr>cn_booking_id = ''1b4e28ba'', reason = Some ''patient request''\<rparr>)
       = Some demo_req_lee"
    by (simp add: demo_key_ok1) (simp add: demo_state1_eq)
  have b: "require_key demo_key demo_state1 = None
     \<and> fmlookup (BOOKINGS demo_state1)
         (cn_booking_id \<lparr>cn_booking_id = ''ffffffff'', reason = None\<rparr>) = None"
    by (simp add: demo_key_ok1) (simp add: demo_state1_eq)
  note t1 = C4_cancel [of demo_key demo_state1
      "\<lparr>cn_booking_id = ''1b4e28ba'', reason = Some ''patient request''\<rparr>" None,
      THEN conjunct2, rule_format, OF a]
  note t2 = C4_cancel [of demo_key demo_state1
      "\<lparr>cn_booking_id = ''ffffffff'', reason = None\<rparr>" None, THEN conjunct1, rule_format, OF b]
  have p1: "cancel \<lparr>cn_booking_id = ''1b4e28ba'', reason = Some ''patient request''\<rparr>
       demo_key demo_state1
     = (Inr \<lparr>cr_booking_id = ''1b4e28ba'', cr_status = ''canceled'',
             cr_reason = ''patient request''\<rparr>,
        demo_state1\<lparr>BOOKINGS := fmdrop ''1b4e28ba'' (BOOKINGS demo_state1),
           SLOTS := SLOTS demo_state1 @ [\<lparr>s_start = ''2026-11-04T09:00:00'',
              s_end = ''2026-11-04T09:40:00'', s_provider = ''Dr. Lee''\<rparr>]\<rparr>)"
    using t1 [THEN conjunct1] by (simp add: demo_req_lee_def)
  have p2: "cancel \<lparr>cn_booking_id = ''1b4e28ba'', reason = None\<rparr> demo_key
        (snd (cancel \<lparr>cn_booking_id = ''1b4e28ba'', reason = Some ''patient request''\<rparr>
                demo_key demo_state1))
     = (Inl (HTTPException 404 ''Booking not found''),
        snd (cancel \<lparr>cn_booking_id = ''1b4e28ba'', reason = Some ''patient request''\<rparr>
                demo_key demo_state1))"
    using t1 [THEN conjunct2, THEN conjunct2] by simp
  have p3: "cancel \<lparr>cn_booking_id = ''ffffffff'', reason = None\<rparr> demo_key demo_state1
     = (Inl (HTTPException 404 ''Booking not found''), demo_state1)"
    using t2 by simp
  show ?thesis
    by (intro conjI) (rule p1, rule p2, rule p3)
qed

text \<open>
  As worded, with the given reason returned whenever one was given, the statement fails for
  a reason given as the empty string: the answer carries "unspecified".
\<close>

theorem C4_empty_reason_counterexample:
  "fst (cancel \<lparr>cn_booking_id = ''1b4e28ba'', reason = Some []\<rparr> demo_key demo_state1)
     = Inr \<lparr>cr_booking_id = ''1b4e28ba'', cr_status = ''canceled'',
            cr_reason = ''unspecified''\<rparr>"
proof -
  have l: "fmlookup (BOOKINGS demo_state1)
         (cn_booking_id \<lparr>cn_booking_id = ''1b4e28ba'', reason = Some []\<rparr>) = Some demo_req_lee"
    by (simp add: demo_state1_eq)
  show ?thesis
    by (simp add: cancel_done [OF demo_key_ok1 l] truthy_def)
qed

text \<open>
  C5. With a valid key, the listing is the first 20 (or fewer) slots of the pool, in pool
  order, that both filters keep: a date filter that is present keeps the slots whose start
  begins with it, a provider filter that is present and not empty keeps the slots whose
  provider equals it up to letter case (the same string under \<open>str.lower\<close>), and an absent
  filter keeps everything; so does a provider filter that is the empty string, which the
  handler takes for an absent one. (An empty date filter keeps everything under either
  reading.) The listing leaves the state as it is. This holds for every pool, every pair of
  filters and every function in the place of \<open>str.lower\<close>.
\<close>

theorem C5_listing:
  assumes "require_key k st = None"
  shows "list_slots str_lower date prov k st =
     (Inr \<lparr>slots = listing_spec str_lower date (if prov = Some [] then None else prov)
                       (SLOTS st)\<rparr>, st)"
proof -
  have "filter (\<lambda>s. str_lower (s_provider s) = str_lower (the prov) \<or> \<not> truthy prov)
           (filter (\<lambda>s. startswith (s_start s) (the date) \<or> \<not> truthy date) (SLOTS st))
        = filter (keeps str_lower date (if prov = Some [] then None else prov)) (SLOTS st)"
    unfolding filter_filter
    by (rule filter_cong)
       (auto simp: keeps_def truthy_def startswith_prefix split: option.splits)
  then show ?thesis
    by (simp add: list_slots_truthy [OF assms] listing_spec_def)
qed

theorem C5_listing_witness:
  "require_key demo_key demo_state0 = None
   \<and> (\<forall>str_lower. list_slots str_lower (Some ''2026-11-04T09'') None demo_key demo_state0
     = (Inr \<lparr>slots = [\<lparr>s_start = ''2026-11-04T09:00:00'', s_end = ''2026-11-04T09:40:00'',
                         s_provider = ''Dr. Lee''\<rparr>,
                       \<lparr>s_start = ''2026-11-04T09:00:00'', s_end = ''2026-11-04T09:20:00'',
                         s_provider = ''NP Garcia''\<rparr>]\<rparr>, demo_state0))
   \<and> list_slots ascii_lower (Some ''2026-11-04T09'') (Some ''NP GARCIA'') demo_key demo_state0
     = (Inr \<lparr>slots = [\<lparr>s_start = ''2026-11-04T09:00:00'', s_end = ''2026-11-04T09:20:00'',
                         s_provider = ''NP Garcia''\<rparr>]\<rparr>, demo_state0)"
proof -
  have a: "listing_spec str_lower (Some ''2026-11-04T09'') None (SLOTS demo_state0)
      = [\<lparr>s_start = ''2026-11-04T09:00:00'', s_end = ''2026-11-04T09:40:00'',
          s_provider = ''Dr. Lee''\<rparr>,
         \<lparr>s_start = ''2026-11-04T09:00:00'', s_end = ''2026-11-04T09:20:00'',
          s_provider = ''NP Garcia''\<rparr>]" for str_lower
    by (simp add: listing_spec_def keeps_def demo_state0_eq seed_slots_eq)
  have b: "listing_spec ascii_lower (Some ''2026-11-04T09'') (Some ''NP GARCIA'')
        (SLOTS demo_state0)
      = [\<lparr>s_start = ''2026-11-04T09:00:00'', s_end = ''2026-11-04T09:20:00'',
          s_provider = ''NP Garcia''\<rparr>]"
    by (simp add: listing_spec_def keeps_def demo_state0_eq seed_slots_eq ascii_lower_def
        ascii_lower_char_def)
  have p1: "list_slots str_lower (Some ''2026-11-04T09'') None demo_key demo_state0
     = (Inr \<lparr>slots = [\<lparr>s_start = ''2026-11-04T09:00:00'', s_end = ''2026-11-04T09:40:00'',
                         s_provider = ''Dr. Lee''\<rparr>,
                       \<lparr>s_start = ''2026-11-04T09:00:00'', s_end = ''2026-11-04T09:20:00'',
                         s_provider = ''NP Garcia''\<rparr>]\<rparr>, demo_state0)" for str_lower
    using C5_listing [OF demo_key_ok, of str_lower "Some ''2026-11-04T09''" None] a [of str_lower]
    by simp
  have p2: "list_slots ascii_lower (Some ''2026-11-04T09'') (Some ''NP GARCIA'')
        demo_key demo_state0
     = (Inr \<lparr>slots = [\<lparr>s_start = ''2026-11-04T09:00:00'', s_end = ''2026-11-04T09:20:00'',
                         s_provider = ''NP Garcia''\<rparr>]\<rparr>, demo_state0)"
    using C5_listing [OF demo_key_ok, of ascii_lower "Some ''2026-11-04T09''"
        "Some ''NP GARCIA''"] b
    by simp
  show ?thesis
    using demo_key_ok p1 p2 by blast
qed

text \<open>
  As worded for every present provider filter, the statement fails on the seeded pool for the
  empty provider string: all 12 slots are listed (the handler does not compare providers
  there, so \<open>str.lower\<close> is not applied at all), while no seeded provider equals the empty
  string up to letter case, so the filter as worded keeps none. The seeded providers are ASCII
  strings, on which \<open>ascii_lower\<close> gives what \<open>str.lower\<close> gives.
\<close>

theorem C5_empty_provider_counterexample:
  "list_slots ascii_lower None (Some []) demo_key demo_state0
     = (Inr \<lparr>slots = SLOTS demo_state0\<rparr>, demo_state0)
   \<and> length (SLOTS demo_state0) = 12
   \<and> listing_spec ascii_lower None (Some []) (SLOTS demo_state0) = []"
proof -
  have "list_slots ascii_lower None (Some []) demo_key demo_state0
     = (Inr \<lparr>slots = take 20 (SLOTS demo_state0)\<rparr>, demo_state0)"
    by (simp add: list_slots_truthy [OF demo_key_ok] truthy_def)
  moreover have "length (SLOTS demo_state0) = 12"
    by (simp add: demo_state0_eq seed_slots_eq)
  moreover have "listing_spec ascii_lower None (Some []) (SLOTS demo_state0) = []"
    by (simp add: listing_spec_def keeps_def demo_state0_eq seed_slots_eq ascii_lower_def)
  ultimately show ?thesis by simp
qed

text \<open>
  C6. With a valid key, insurance verification returns a body that depends on the visit type
  alone and leaves the state as it is: \<open>covered\<close> is true; for the visit type "screening"
  exactly, \<open>preauth_required\<close> is false, \<open>copay_estimate\<close> is 100.0 and \<open>steps\<close> is the one
  item "No pre-auth required"; for any other visit type (a \<open>null\<close> included)
  \<open>preauth_required\<close> is true, \<open>copay_estimate\<close> is 150.0 and \<open>steps\<close> is the fixed
  sequence of three items; a request that does not carry the field gets the visit type
  "screening". The two copay values are the constants of the source, taken as real numbers.
\<close>

theorem C6_insurance_verify:
  assumes "require_key k st = None"
  shows "insurance_verify req k st =
      (Inr (if iv_visit_type req = Some ''screening''
            then \<lparr>covered = True, copay_estimate = 100, preauth_required = False,
                  steps = [''No pre-auth required'']\<rparr>
            else \<lparr>covered = True, copay_estimate = 150, preauth_required = True,
                  steps = [''Submit indication & notes'', ''Get auth reference'',
                           ''Validity 30 days'']\<rparr>), st)
    \<and> iv_visit_type (InsuranceVerifyRequest_init p c None) = Some ''screening''
    \<and> iv_visit_type (InsuranceVerifyRequest_init p c (Some v)) = v
    \<and> (\<forall>req' k' st'. require_key k' st' = None \<and> iv_visit_type req' = iv_visit_type req
          \<longrightarrow> fst (insurance_verify req' k' st') = fst (insurance_verify req k st))"
  using assms
  by (simp add: insurance_verify_def InsuranceVerifyRequest_init_def)

theorem C6_insurance_verify_witness:
  "require_key demo_key demo_state1 = None
   \<and> insurance_verify (InsuranceVerifyRequest_init ''Acme'' ''45378'' None) demo_key demo_state1
      = (Inr \<lparr>covered = True, copay_estimate = 100, preauth_required = False,
              steps = [''No pre-auth required'']\<rparr>, demo_state1)
   \<and> insurance_verify (InsuranceVerifyRequest_init ''Acme'' ''45378'' (Some (Some ''Screening'')))
        demo_key demo_state1
      = (Inr \<lparr>covered = True, copay_estimate = 150, preauth_required = True,
              steps = [''Submit indication & notes'', ''Get auth reference'',
                       ''Validity 30 days'']\<rparr>, demo_state1)"
  using C6_insurance_verify [OF demo_key_ok1,
      of "InsuranceVerifyRequest_init ''Acme'' ''45378'' None" "''Acme''" "''45378''"]
    C6_insurance_verify [OF demo_key_ok1,
      of "InsuranceVerifyRequest_init ''Acme'' ''45378'' (Some (Some ''Screening''))"
         "''Acme''" "''45378''" "Some ''Screening''"]
    demo_key_ok1
  by (simp add: InsuranceVerifyRequest_init_def)

text \<open>
  C7. When the \<open>x-api-key\<close> header is absent, or differs from the configured secret, each of
  the six protected handlers (list slots, book, reschedule, cancel, send message, verify
  insurance) raises the 401 error, and the state after the call, with its slot pool, its
  bookings and its message log, is the state before the call.
\<close>

theorem C7_unauthorized_no_mutation:
  assumes "k = None \<or> k \<noteq> API_KEY st"
  shows "list_slots str_lower date prov k st
           = (Inl (HTTPException 401 ''Unauthorized: invalid x-api-key''), st)
       \<and> book breq k u st = (Inl (HTTPException 401 ''Unauthorized: invalid x-api-key''), st)
       \<and> reschedule rreq k st
           = (Inl (HTTPException 401 ''Unauthorized: invalid x-api-key''), st)
       \<and> cancel creq k st = (Inl (HTTPException 401 ''Unauthorized: invalid x-api-key''), st)
       \<and> send_message mreq k u st
           = (Inl (HTTPException 401 ''Unauthorized: invalid x-api-key''), st)
       \<and> insurance_verify ireq k st
           = (Inl (HTTPException 401 ''Unauthorized: invalid x-api-key''), st)"
proof -
  have r: "require_key k st = Some (HTTPException 401 ''Unauthorized: invalid x-api-key'')"
    using assms by (auto simp: require_key_def truthy_def)
  have "list_slots str_lower date prov k st
           = (Inl (HTTPException 401 ''Unauthorized: invalid x-api-key''), st)"
    by (simp add: list_slots_def r)
  moreover have "send_message mreq k u st
           = (Inl (HTTPException 401 ''Unauthorized: invalid x-api-key''), st)"
    by (simp add: send_message_def r)
  moreover have "insurance_verify ireq k st
           = (Inl (HTTPException 401 ''Unauthorized: invalid x-api-key''), st)"
    by (simp add: insurance_verify_def r)
  ultimately show ?thesis
    using book_unauthorized [OF r] reschedule_unauthorized [OF r] cancel_unauthorized [OF r]
    by simp
qed

theorem C7_unauthorized_no_mutation_witness:
  "(Some ''guess'' = None \<or> Some ''guess'' \<noteq> API_KEY demo_state1)
   \<and> book demo_req_garcia (Some ''guess'') 5 demo_state1
       = (Inl (HTTPException 401 ''Unauthorized: invalid x-api-key''), demo_state1)
   \<and> cancel \<lparr>cn_booking_id = ''1b4e28ba'', reason = None\<rparr> (Some ''guess'') demo_state1
       = (Inl (HTTPException 401 ''Unauthorized: invalid x-api-key''), demo_state1)
   \<and> send_message \<lparr>channel = ''sms'', recipient = ''+15550100'', subject = None,
         template_name = None, variables = None\<rparr> (Some ''guess'') 5 demo_state1
       = (Inl (HTTPException 401 ''Unauthorized: invalid x-api-key''), demo_state1)"
proof -
  have h: "Some ''guess'' = None \<or> Some ''guess'' \<noteq> API_KEY demo_state1"
    by (simp add: demo_state1_eq)
  show ?thesis
    using h C7_unauthorized_no_mutation [OF h] by simp
qed

text \<open>
  C8. A reschedule request that fails leaves the state as it was, so the targeted booking's
  start and end, the whole booking collection and the slot pool are unchanged. With a valid
  key, an unknown booking identifier fails with 404 "Booking not found", and a known
  identifier with no slot of the pool matching the new start and end fails with 400
  "New slot not available".
\<close>

theorem C8_reschedule_failure_no_change:
  "(require_key k st = None \<and> fmlookup (BOOKINGS st) (rs_booking_id req) = None
      \<longrightarrow> reschedule req k st = (Inl (HTTPException 404 ''Booking not found''), st))
   \<and> (require_key k st = None \<and> fmlookup (BOOKINGS st) (rs_booking_id req) \<noteq> None
       \<and> list_all (\<lambda>s. \<not> (s_start s = new_start req \<and> s_end s = new_end req)) (SLOTS st)
      \<longrightarrow> reschedule req k st = (Inl (HTTPException 400 ''New slot not available''), st))
   \<and> (\<forall>e. fst (reschedule req k st) = Inl e \<longrightarrow> snd (reschedule req k st) = st)"
proof (intro conjI impI allI)
  assume "require_key k st = None \<and> fmlookup (BOOKINGS st) (rs_booking_id req) = None"
  then show "reschedule req k st = (Inl (HTTPException 404 ''Booking not found''), st)"
    by (simp add: reschedule_not_found)
next
  assume a: "require_key k st = None \<and> fmlookup (BOOKINGS st) (rs_booking_id req) \<noteq> None
       \<and> list_all (\<lambda>s. \<not> (s_start s = new_start req \<and> s_end s = new_end req)) (SLOTS st)"
  then obtain old where o: "fmlookup (BOOKINGS st) (rs_booking_id req) = Some old" by blast
  have "find (\<lambda>s. s_start s = new_start req \<and> s_end s = new_end req) (SLOTS st) = None"
    using a by (simp add: find_None_iff' list_all_iff)
  then show "reschedule req k st = (Inl (HTTPException 400 ''New slot not available''), st)"
    using a o by (simp add: reschedule_unavailable)
next
  fix e assume "fst (reschedule req k st) = Inl e"
  then show "snd (reschedule req k st) = st" by (rule reschedule_failure_state)
qed

theorem C8_reschedule_failure_no_change_witness:
  "reschedule \<lparr>rs_booking_id = ''ffffffff'', new_start = ''2026-11-04T10:00:00'',
                new_end = ''2026-11-04T10:40:00''\<rparr> demo_key demo_state1
     = (Inl (HTTPException 404 ''Booking not found''), demo_state1)
   \<and> reschedule \<lparr>rs_booking_id = ''1b4e28ba'', new_start = ''2026-11-04T12:00:00'',
                new_end = ''2026-11-04T12:40:00''\<rparr> demo_key demo_state1
     = (Inl (HTTPException 400 ''New slot not available''), demo_state1)
   \<and> fmlookup (BOOKINGS (snd (reschedule \<lparr>rs_booking_id = ''1b4e28ba'',
          new_start = ''2026-11-04T12:00:00'', new_end = ''2026-11-04T12:40:00''\<rparr>
          demo_key demo_state1))) ''1b4e28ba'' = Some demo_req_lee"
proof -
  let ?r1 = "\<lparr>rs_booking_id = ''ffffffff'', new_start = ''2026-11-04T10:00:00'',
                new_end = ''2026-11-04T10:40:00''\<rparr>"
  let ?r2 = "\<lparr>rs_booking_id = ''1b4e28ba'', new_start = ''2026-11-04T12:00:00'',
                new_end = ''2026-11-04T12:40:00''\<rparr>"
  have a: "require_key demo_key demo_state1 = None
      \<and> fmlookup (BOOKINGS demo_state1) (rs_booking_id ?r1) = None"
    by (simp add: demo_key_ok1) (simp add: demo_state1_eq)
  have b: "require_key demo_key demo_state1 = None
      \<and> fmlookup (BOOKINGS demo_state1) (rs_booking_id ?r2) \<noteq> None
      \<and> list_all (\<lambda>s. \<not> (s_start s = new_start ?r2 \<and> s_end s = new_end ?r2))
           (SLOTS demo_state1)"
    by (simp add: demo_key_ok1) (simp add: demo_state1_eq seed_slots_eq)
  have c: "fmlookup (BOOKINGS demo_state1) ''1b4e28ba'' = Some demo_req_lee"
    by (simp add: demo_state1_eq)
  show ?thesis
    using C8_reschedule_failure_no_change [of demo_key demo_state1 ?r1] a
      C8_reschedule_failure_no_change [of demo_key demo_state1 ?r2] b c
    by simp
qed

text \<open>
  C9. For any date string of tomorrow, any configured non-empty key and any UUID drawn: the seed
  holds exactly 12 slots, six distinct start hours for each of the two providers, all starting
  with tomorrow's date, among them Dr. Lee's 09:00 to 09:40 slot; booking that slot succeeds
  with an identifier of 8 characters; the unfiltered listing then is the whole pool and does
  not contain the slot; cancelling that identifier succeeds, and the listing contains the slot
  again.
\<close>

theorem C9_seed_book_cancel:
  fixes d k p v :: string and u :: uuid and r :: "string option"
    and str_lower :: "string \<Rightarrow> string"
  assumes key: "k \<noteq> []"
  defines "triple \<equiv> \<lparr>s_start = d @ ''T09:00:00'', s_end = d @ ''T09:40:00'',
                       s_provider = ''Dr. Lee''\<rparr>"
    and "req \<equiv> \<lparr>patient_ref = p, start = d @ ''T09:00:00'', end_time = d @ ''T09:40:00'',
                 provider = ''Dr. Lee'', visit_type = v\<rparr>"
    and "st0 \<equiv> initial_state d (Some k)"
    and "bid \<equiv> take 8 (uuid_str u)"
  defines "st1 \<equiv> snd (book req (Some k) u st0)"
  defines "st2 \<equiv> snd (cancel \<lparr>cn_booking_id = bid, reason = r\<rparr> (Some k) st1)"
  shows "length (SLOTS st0) = 12
    \<and> length (remdups (map s_start (SLOTS st0))) = 6
    \<and> length (filter (\<lambda>s. s_provider s = ''Dr. Lee'') (SLOTS st0)) = 6
    \<and> length (filter (\<lambda>s. s_provider s = ''NP Garcia'') (SLOTS st0)) = 6
    \<and> list_all (\<lambda>s. startswith (s_start s) d) (SLOTS st0)
    \<and> triple \<in> set (SLOTS st0)
    \<and> fst (book req (Some k) u st0) = Inr \<lparr>booking_id = bid, status = ''created'', booking = req\<rparr>
    \<and> length bid = 8
    \<and> fst (list_slots str_lower None None (Some k) st1) = Inr \<lparr>slots = SLOTS st1\<rparr>
    \<and> triple \<notin> set (SLOTS st1)
    \<and> (\<exists>w. fst (cancel \<lparr>cn_booking_id = bid, reason = r\<rparr> (Some k) st1)
              = Inr \<lparr>cr_booking_id = bid, cr_status = ''canceled'', cr_reason = w\<rparr>)
    \<and> fst (list_slots str_lower None None (Some k) st2) = Inr \<lparr>slots = SLOTS st2\<rparr>
    \<and> triple \<in> set (SLOTS st2)"
proof -
  have s0: "SLOTS st0 = seed_slots d" by (simp add: st0_def initial_state_def)
  have b: "book req (Some k) u st0 =
     (Inr \<lparr>booking_id = bid, status = ''created'', booking = req\<rparr>,
      \<lparr>API_KEY = Some k, SLOTS = tl (seed_slots d),
       BOOKINGS = fmupd bid req fmempty, MESSAGES = []\<rparr>)"
    unfolding req_def st0_def bid_def by (rule book_first_seed [OF key])
  then have st1: "st1 = \<lparr>API_KEY = Some k, SLOTS = tl (seed_slots d),
       BOOKINGS = fmupd bid req fmempty, MESSAGES = []\<rparr>"
    by (simp add: st1_def)
  have k1: "require_key (Some k) st1 = None"
    using key by (simp add: require_key_same st1)
  have l1: "fmlookup (BOOKINGS st1) (cn_booking_id \<lparr>cn_booking_id = bid, reason = r\<rparr>) = Some req"
    by (simp add: st1)
  note c = cancel_done [OF k1 l1]
  have st2: "st2 = \<lparr>API_KEY = Some k, SLOTS = tl (seed_slots d) @ [triple],
       BOOKINGS = fmdrop bid (fmupd bid req fmempty), MESSAGES = []\<rparr>"
    unfolding st2_def c by (simp add: st1 slot_of_def req_def triple_def)
  have k2: "require_key (Some k) st2 = None"
    using key by (simp add: require_key_same st2)
  have "length (SLOTS st0) = 12" by (simp add: s0 seed_slots_eq)
  moreover have "length (remdups (map s_start (SLOTS st0))) = 6" by (simp add: s0 seed_slots_eq)
  moreover have "length (filter (\<lambda>s. s_provider s = ''Dr. Lee'') (SLOTS st0)) = 6"
    by (simp add: s0 seed_slots_eq)
  moreover have "length (filter (\<lambda>s. s_provider s = ''NP Garcia'') (SLOTS st0)) = 6"
    by (simp add: s0 seed_slots_eq)
  moreover have "list_all (\<lambda>s. startswith (s_start s) d) (SLOTS st0)"
    by (simp add: s0 seed_slots_eq startswith_def)
  moreover have "triple \<in> set (SLOTS st0)" by (simp add: s0 seed_slots_eq triple_def)
  moreover have "fst (book req (Some k) u st0)
      = Inr \<lparr>booking_id = bid, status = ''created'', booking = req\<rparr>"
    by (simp add: b)
  moreover have "length bid = 8" unfolding bid_def by (rule length_booking_id)
  moreover have "fst (list_slots str_lower None None (Some k) st1) = Inr \<lparr>slots = SLOTS st1\<rparr>"
    by (simp add: list_slots_unfiltered [OF k1]) (simp add: st1 seed_slots_eq)
  moreover have "triple \<notin> set (SLOTS st1)" by (simp add: st1 seed_slots_eq triple_def)
  moreover have "\<exists>w. fst (cancel \<lparr>cn_booking_id = bid, reason = r\<rparr> (Some k) st1)
              = Inr \<lparr>cr_booking_id = bid, cr_status = ''canceled'', cr_reason = w\<rparr>"
    by (simp add: c)
  moreover have "fst (list_slots str_lower None None (Some k) st2) = Inr \<lparr>slots = SLOTS st2\<rparr>"
    by (simp add: list_slots_unfiltered [OF k2]) (simp add: st2 seed_slots_eq)
  moreover have "triple \<in> set (SLOTS st2)" by (simp add: st2)
  ultimately show ?thesis by blast
qed

theorem C9_seed_book_cancel_witness:
  "''secret'' \<noteq> []
   \<and> length (SLOTS demo_state0) = 12
   \<and> fst (book demo_req_lee demo_key demo_uuid demo_state0)
       = Inr \<lparr>booking_id = ''1b4e28ba'', status = ''created'', booking = demo_req_lee\<rparr>
   \<and> \<lparr>s_start = ''2026-11-04T09:00:00'', s_end = ''2026-11-04T09:40:00'',
       s_provider = ''Dr. Lee''\<rparr> \<notin> set (SLOTS demo_state1)
   \<and> \<lparr>s_start = ''2026-11-04T09:00:00'', s_end = ''2026-11-04T09:40:00'',
       s_provider = ''Dr. Lee''\<rparr>
      \<in> set (SLOTS (snd (cancel \<lparr>cn_booking_id = ''1b4e28ba'', reason = None\<rparr>
                             demo_key demo_state1)))"
  using C9_seed_book_cancel [where k = "''secret''" and d = "''2026-11-04''" and u = demo_uuid
      and p = "''P-1''" and v = "''screening''" and r = None]
  by (simp add: demo_state0_def demo_state1_def demo_key_def demo_req_lee_def demo_uuid_id)

text \<open>
  C10. A successful cancel removes exactly one booking and appends exactly one slot; a
  successful reschedule leaves the size of the pool and the number of bookings as they were;
  a successful book removes exactly one slot, and adds exactly one booking when the
  identifier generated for it is not in use, so that in these three cases the sum of the
  pool size and the number of active bookings is conserved. When the identifier generated
  is in use, the record under it is replaced: the number of bookings stays and the pool
  still loses one slot.
\<close>

theorem C10_conservation:
  "(\<forall>resp st'. book req k u st = (Inr resp, st')
        \<and> take 8 (uuid_str u) |\<notin>| fmdom (BOOKINGS st)
      \<longrightarrow> length (SLOTS st') + 1 = length (SLOTS st)
          \<and> booking_count st' = booking_count st + 1
          \<and> length (SLOTS st') + booking_count st' = length (SLOTS st) + booking_count st)
   \<and> (\<forall>resp st'. book req k u st = (Inr resp, st')
        \<and> take 8 (uuid_str u) |\<in>| fmdom (BOOKINGS st)
      \<longrightarrow> length (SLOTS st') + 1 = length (SLOTS st)
          \<and> booking_count st' = booking_count st)
   \<and> (\<forall>resp st'. cancel creq k st = (Inr resp, st')
      \<longrightarrow> length (SLOTS st') = length (SLOTS st) + 1
          \<and> booking_count st' + 1 = booking_count st
          \<and> length (SLOTS st') + booking_count st' = length (SLOTS st) + booking_count st)
   \<and> (\<forall>resp st'. reschedule rreq k st = (Inr resp, st')
      \<longrightarrow> length (SLOTS st') = length (SLOTS st)
          \<and> booking_count st' = booking_count st
          \<and> length (SLOTS st') + booking_count st' = length (SLOTS st) + booking_count st)"
proof (intro conjI allI impI)
  fix resp st'
  assume a: "book req k u st = (Inr resp, st') \<and> take 8 (uuid_str u) |\<notin>| fmdom (BOOKINGS st)"
  then have b: "book req k u st = (Inr resp, st')" by simp
  from b obtain m where k: "require_key k st = None"
    and f: "find (\<lambda>s. s_start s = start req \<and> s_end s = end_time req
                       \<and> s_provider s = provider req) (SLOTS st) = Some m"
    by (rule book_success_cases)
  have st': "st' = st\<lparr>SLOTS := remove1 m (SLOTS st),
         BOOKINGS := fmupd (take 8 (uuid_str u)) req (BOOKINGS st)\<rparr>"
    using b unfolding book_created [OF k f] by simp
  show l: "length (SLOTS st') + 1 = length (SLOTS st)"
    using length_remove1_found [OF f] by (simp add: st')
  show c: "booking_count st' = booking_count st + 1"
    unfolding st' using a by (intro booking_count_insert) simp
  show "length (SLOTS st') + booking_count st' = length (SLOTS st) + booking_count st"
    using l c by simp
next
  fix resp st'
  assume a: "book req k u st = (Inr resp, st') \<and> take 8 (uuid_str u) |\<in>| fmdom (BOOKINGS st)"
  then have b: "book req k u st = (Inr resp, st')" by simp
  from b obtain m where k: "require_key k st = None"
    and f: "find (\<lambda>s. s_start s = start req \<and> s_end s = end_time req
                       \<and> s_provider s = provider req) (SLOTS st) = Some m"
    by (rule book_success_cases)
  have st': "st' = st\<lparr>SLOTS := remove1 m (SLOTS st),
         BOOKINGS := fmupd (take 8 (uuid_str u)) req (BOOKINGS st)\<rparr>"
    using b unfolding book_created [OF k f] by simp
  show "length (SLOTS st') + 1 = length (SLOTS st)"
    using length_remove1_found [OF f] by (simp add: st')
  show "booking_count st' = booking_count st"
    unfolding st' using a by (intro booking_count_replace) simp
next
  fix resp st'
  assume b: "cancel creq k st = (Inr resp, st')"
  from b obtain old where k: "require_key k st = None"
    and o: "fmlookup (BOOKINGS st) (cn_booking_id creq) = Some old"
    by (rule cancel_success_cases)
  have st': "st' = st\<lparr>BOOKINGS := fmdrop (cn_booking_id creq) (BOOKINGS st),
         SLOTS := SLOTS st @ [slot_of old]\<rparr>"
    using b unfolding cancel_done [OF k o] by simp
  show l: "length (SLOTS st') = length (SLOTS st) + 1"
    by (simp add: st')
  show c: "booking_count st' + 1 = booking_count st"
    unfolding st' by (rule booking_count_drop [OF o])
  show "length (SLOTS st') + booking_count st' = length (SLOTS st) + booking_count st"
    using l c by simp
next
  fix resp st'
  assume b: "reschedule rreq k st = (Inr resp, st')"
  from b obtain old m where k: "require_key k st = None"
    and o: "fmlookup (BOOKINGS st) (rs_booking_id rreq) = Some old"
    and f: "find (\<lambda>s. s_start s = new_start rreq \<and> s_end s = new_end rreq) (SLOTS st) = Some m"
    by (rule reschedule_success_cases)
  have st': "st' = st\<lparr>SLOTS := remove1 m (SLOTS st) @ [slot_of old],
         BOOKINGS := fmupd (rs_booking_id rreq)
                       (old\<lparr>start := new_start rreq, end_time := new_end rreq\<rparr>) (BOOKINGS st)\<rparr>"
    using b unfolding reschedule_done [OF k o f] by simp
  show l: "length (SLOTS st') = length (SLOTS st)"
    using length_remove1_found [OF f] by (simp add: st')
  show c: "booking_count st' = booking_count st"
    unfolding st' by (intro booking_count_replace fmdomI [OF o])
  show "length (SLOTS st') + booking_count st' = length (SLOTS st) + booking_count st"
    using l c by simp
qed

theorem C10_conservation_witness:
  "length (SLOTS demo_state1) + 1 = length (SLOTS demo_state0)
   \<and> booking_count demo_state1 = booking_count demo_state0 + 1
   \<and> length (SLOTS (snd (cancel \<lparr>cn_booking_id = ''1b4e28ba'', reason = None\<rparr>
                            demo_key demo_state1)))
      = length (SLOTS demo_state1) + 1
   \<and> booking_count (snd (cancel \<lparr>cn_booking_id = ''1b4e28ba'', reason = None\<rparr>
                            demo_key demo_state1)) + 1
      = booking_count demo_state1
   \<and> length (SLOTS (snd (reschedule demo_resched demo_key demo_state1)))
      = length (SLOTS demo_state1)
   \<and> booking_count (snd (reschedule demo_resched demo_key demo_state1))
      = booking_count demo_state1"
proof -
  let ?c = "\<lparr>cn_booking_id = ''1b4e28ba'', reason = None\<rparr>"
  note t = C10_conservation [of demo_req_lee demo_key demo_uuid demo_state0 ?c demo_resched]
  note t1 = C10_conservation [of demo_req_lee demo_key demo_uuid demo_state1 ?c demo_resched]
  have a: "book demo_req_lee demo_key demo_uuid demo_state0
       = (Inr \<lparr>booking_id = ''1b4e28ba'', status = ''created'', booking = demo_req_lee\<rparr>,
          demo_state1)
     \<and> take 8 (uuid_str demo_uuid) |\<notin>| fmdom (BOOKINGS demo_state0)"
    by (simp add: demo_book_lee demo_state1_eq) (simp add: demo_state0_eq)
  have lc: "fmlookup (BOOKINGS demo_state1) (cn_booking_id ?c) = Some demo_req_lee"
    by (simp add: demo_state1_eq)
  have b: "cancel ?c demo_key demo_state1
       = (fst (cancel ?c demo_key demo_state1), snd (cancel ?c demo_key demo_state1))"
    by simp
  have b': "fst (cancel ?c demo_key demo_state1)
       = Inr \<lparr>cr_booking_id = ''1b4e28ba'', cr_status = ''canceled'',
              cr_reason = ''unspecified''\<rparr>"
    by (simp add: cancel_done [OF demo_key_ok1 lc] truthy_def)
  have lr: "fmlookup (BOOKINGS demo_state1) (rs_booking_id demo_resched) = Some demo_req_lee"
    by (simp add: demo_state1_eq demo_resched_def)
  have fr: "find (\<lambda>s. s_start s = new_start demo_resched \<and> s_end s = new_end demo_resched)
             (SLOTS demo_state1)
           = Some \<lparr>s_start = ''2026-11-04T10:00:00'', s_end = ''2026-11-04T10:20:00'',
                   s_provider = ''NP Garcia''\<rparr>"
    by (simp add: demo_state1_eq demo_resched_def seed_slots_eq)
  have c': "fst (reschedule demo_resched demo_key demo_state1)
       = Inr \<lparr>booking_id = rs_booking_id demo_resched, status = ''rescheduled'',
           booking = demo_req_lee\<lparr>start := new_start demo_resched,
                                  end_time := new_end demo_resched\<rparr>\<rparr>"
    by (simp add: reschedule_done [OF demo_key_ok1 lr fr])
  have p1: "length (SLOTS demo_state1) + 1 = length (SLOTS demo_state0)
     \<and> booking_count demo_state1 = booking_count demo_state0 + 1"
    using t [THEN conjunct1, rule_format, OF a] by simp
  have p2: "length (SLOTS (snd (cancel ?c demo_key demo_state1)))
      = length (SLOTS demo_state1) + 1
     \<and> booking_count (snd (cancel ?c demo_key demo_state1)) + 1 = booking_count demo_state1"
    using t1 [THEN conjunct2, THEN conjunct2, THEN conjunct1, rule_format,
        of "\<lparr>cr_booking_id = ''1b4e28ba'', cr_status = ''canceled'',
              cr_reason = ''unspecified''\<rparr>" "snd (cancel ?c demo_key demo_state1)"]
      b b' by simp
  have p3: "length (SLOTS (snd (reschedule demo_resched demo_key demo_state1)))
      = length (SLOTS demo_state1)
     \<and> booking_count (snd (reschedule demo_resched demo_key demo_state1))
      = booking_count demo_state1"
    using t1 [THEN conjunct2, THEN conjunct2, THEN conjunct2, rule_format,
        of "\<lparr>booking_id = rs_booking_id demo_resched, status = ''rescheduled'',
           booking = demo_req_lee\<lparr>start := new_start demo_resched,
                                  end_time := new_end demo_resched\<rparr>\<rparr>"
           "snd (reschedule demo_resched demo_key demo_state1)"]
      c' by (simp add: prod_eq_iff)
  show ?thesis using p1 p2 p3 by simp
qed

text \<open>
  As worded for every successful book, the conservation fails when the identifier generated
  is in use: with one booking and 11 slots, booking NP Garcia's 09:00 slot with a different
  UUID of the same first 8 characters succeeds and leaves one booking and 10 slots.
\<close>

theorem C10_identifier_reuse_counterexample:
  "demo_uuid \<noteq> demo_uuid_other
   \<and> length (SLOTS demo_state1) = 11 \<and> booking_count demo_state1 = 1
   \<and> fst (book demo_req_garcia demo_key demo_uuid_other demo_state1)
      = Inr \<lparr>booking_id = ''1b4e28ba'', status = ''created'', booking = demo_req_garcia\<rparr>
   \<and> length (SLOTS (snd (book demo_req_garcia demo_key demo_uuid_other demo_state1))) = 10
   \<and> booking_count (snd (book demo_req_garcia demo_key demo_uuid_other demo_state1)) = 1"
proof -
  have f: "find (\<lambda>s. s_start s = start demo_req_garcia \<and> s_end s = end_time demo_req_garcia
                 \<and> s_provider s = provider demo_req_garcia) (SLOTS demo_state1)
        = Some \<lparr>s_start = ''2026-11-04T09:00:00'', s_end = ''2026-11-04T09:20:00'',
                s_provider = ''NP Garcia''\<rparr>"
    by (simp add: demo_state1_eq seed_slots_eq demo_req_garcia_def)
  show ?thesis
    unfolding book_created [OF demo_key_ok1 f]
    by (simp add: demo_uuids_differ demo_uuid_other_id demo_state1_eq seed_slots_eq
        booking_count_def fcard_finsert_if)
qed

end
